theory Spec2Isabelle
  imports Complex_Main "HOL-Library.Char_ord" "HOL-Library.List_Lexorder" "HOL-Library.Multiset"
    "HOL-Library.Sublist"
begin

section \<open>Python values\<close>

text \<open>
  The pipeline of \<^verbatim>\<open>run/main_ProblemGeneratorV6.py\<close> and \<^verbatim>\<open>run/pg_helpers.py\<close> works on
  values parsed from JSON and on the value a generated \<^verbatim>\<open>solve()\<close> returns. A finite float
  is identified with the real number it denotes; the three special floats are
  constructors of their own. Strings are byte strings; dictionaries are association lists
  in insertion order, read with \<^verbatim>\<open>.get\<close>.
\<close>

datatype pyfloat = Finite real | PosInf | NegInf | NaN

datatype pyval =
    PyNone
  | PyBool bool
  | PyInt int
  | PyFloat pyfloat
  | PyStr string
  | PyList "pyval list"
  | PyDict "(string \<times> pyval) list"

type_synonym pydict = "(string \<times> pyval) list"

text \<open>\<^verbatim>\<open>d.get(k)\<close>: the value stored under \<open>k\<close>, \<^verbatim>\<open>None\<close> when the key is absent.\<close>

definition dict_get :: "pydict \<Rightarrow> string \<Rightarrow> pyval" where
  "dict_get d k = (case map_of d k of None \<Rightarrow> PyNone | Some v \<Rightarrow> v)"

text \<open>
  Exceptions that leave a function of the pipeline instead of a result: a \<^verbatim>\<open>TypeError\<close> or
  an \<^verbatim>\<open>OverflowError\<close> of the pipeline's own operations, or an exception of generated code
  that no handler catches.
\<close>

datatype exn =
    TypeError
  | OverflowError
  | Uncaught string

subsection \<open>Strings\<close>

definition lower_char :: "char \<Rightarrow> char" where
  "lower_char c =
     (case map_of (zip ''ABCDEFGHIJKLMNOPQRSTUVWXYZ'' ''abcdefghijklmnopqrstuvwxyz'') c of
        None \<Rightarrow> c
      | Some d \<Rightarrow> d)"

definition lower :: "string \<Rightarrow> string" where
  "lower s = map lower_char s"

text \<open>\<^verbatim>\<open>sep.join(xs)\<close>.\<close>

fun join :: "string \<Rightarrow> string list \<Rightarrow> string" where
  "join sep [] = []"
| "join sep [x] = x"
| "join sep (x # y # ys) = x @ sep @ join sep (y # ys)"

text \<open>\<^verbatim>\<open>x in s\<close> on strings: \<open>x\<close> occurs in \<open>s\<close> as a contiguous block.\<close>

fun contains :: "string \<Rightarrow> string \<Rightarrow> bool" where
  "contains [] x = (x = [])"
| "contains (c # s) x = (prefix x (c # s) \<or> contains s x)"

text \<open>
  \<^verbatim>\<open>str(v).lower() == 'nan'\<close>, the test that marks the unknown variable. \<^verbatim>\<open>str\<close> of
  \<^verbatim>\<open>None\<close>, of a boolean, an integer, a list or a dictionary is never \<^verbatim>\<open>nan\<close> in any
  case (\<^verbatim>\<open>None\<close>, \<^verbatim>\<open>True\<close>, digits, brackets); \<^verbatim>\<open>str\<close> of a string is the string; \<^verbatim>\<open>str\<close>
  of a float is \<^verbatim>\<open>nan\<close> exactly for the float NaN.
\<close>

fun str_lower_is_nan :: "pyval \<Rightarrow> bool" where
  "str_lower_is_nan (PyStr s) = (lower s = ''nan'')"
| "str_lower_is_nan (PyFloat f) = (f = NaN)"
| "str_lower_is_nan _ = False"

section \<open>Candidate problems and their signature\<close>

text \<open>
  A candidate is the parsed answer of the second model call: \<^verbatim>\<open>formula_ids\<close>, a list of
  strings (absent reads as the empty list), \<^verbatim>\<open>variables\<close>, a dictionary from variable
  names to dictionaries with a \<^verbatim>\<open>value\<close> and a \<^verbatim>\<open>unit\<close> (absent reads as empty), and the
  text of the word problem.
\<close>

record candidate =
  formula_ids :: "string list"
  variables :: "(string \<times> pydict) list"
  word_problem :: string

text \<open>
  The loop of \<^verbatim>\<open>compute_problem_signature\<close> over \<^verbatim>\<open>variables.items()\<close>: the first name
  whose value reads \<^verbatim>\<open>nan\<close>, \<^verbatim>\<open>None\<close> when there is none.
\<close>

fun first_unknown :: "(string \<times> pydict) list \<Rightarrow> string option" where
  "first_unknown [] = None"
| "first_unknown ((k, v) # kvs) =
     (if str_lower_is_nan (dict_get v ''value'') then Some k else first_unknown kvs)"

text \<open>\<^verbatim>\<open>f"{unknown}"\<close> for \<^verbatim>\<open>unknown\<close> a name or \<^verbatim>\<open>None\<close>.\<close>

definition str_opt :: "string option \<Rightarrow> string" where
  "str_opt u = (case u of None \<Rightarrow> ''None'' | Some k \<Rightarrow> k)"

definition compute_problem_signature :: "candidate \<Rightarrow> string" where
  "compute_problem_signature op_call2_data =
     (let fids = formula_ids op_call2_data;
          sorted_fids = sort fids;
          unknown = first_unknown (variables op_call2_data)
      in ''fids=['' @ join '','' sorted_fids @ '']|unknown='' @ str_opt unknown)"

section \<open>The candidate validator\<close>

text \<open>
  An error message is the f-string of the source, kept in pieces: the literal text and
  the values formatted into it (\<^verbatim>\<open>{x}\<close> stands for \<^verbatim>\<open>str(x)\<close>).
\<close>

datatype piece = Txt string | Str pyval

type_synonym message = "piece list"

text \<open>
  The dictionaries returned by the validator and by the executor: both have \<^verbatim>\<open>valid\<close> and
  an optional \<^verbatim>\<open>error\<close>; an absent key reads as \<open>None\<close>.
\<close>

record outcome =
  valid :: bool
  error :: "message option"

record validation_result = outcome +
  unknown_var :: "string option"

record execution_result = outcome +
  result :: "pyval option"

text \<open>
  The first argument of \<^verbatim>\<open>validate_problem\<close> after the candidate: a dictionary (its keys
  are the known ids), another iterable of ids, or something \<^verbatim>\<open>set()\<close> cannot iterate.
\<close>

datatype formula_source =
    FormulaDict "(string \<times> pyval) list"
  | FormulaIds "string list"
  | NotIterable

definition formula_id_set_of :: "formula_source \<Rightarrow> string set" where
  "formula_id_set_of formula_dict =
     (case formula_dict of
        FormulaDict d \<Rightarrow> set (map fst d)
      | FormulaIds ids \<Rightarrow> set ids
      | NotIterable \<Rightarrow> {})"

text \<open>The list comprehension \<^verbatim>\<open>nan_vars\<close>.\<close>

definition nan_vars_of :: "(string \<times> pydict) list \<Rightarrow> string list" where
  "nan_vars_of vars = map fst (filter (\<lambda>(k, v). str_lower_is_nan (dict_get v ''value'')) vars)"

subsection \<open>Numbers\<close>

text \<open>Number of binary digits of a natural number.\<close>

fun bit_len :: "nat \<Rightarrow> nat" where
  "bit_len n = (if n = 0 then 0 else Suc (bit_len (n div 2)))"

text \<open>
  \<^verbatim>\<open>float(i)\<close> for an integer: exact up to 53 bits, rounded to the nearest double (ties to
  even) above, \<^verbatim>\<open>OverflowError\<close> when the rounded value does not fit a double.
\<close>

definition float_of_int :: "int \<Rightarrow> exn + pyfloat" where
  "float_of_int i =
     (let a = nat \<bar>i\<bar> in
      if a < 2 ^ 53 then Inr (Finite (of_int i))
      else
        let e = bit_len a - 53;
            q = a div 2 ^ e;
            r = a mod 2 ^ e;
            half = 2 ^ (e - 1);
            q' = (if half < r \<or> (r = half \<and> odd q) then q + 1 else q);
            m = q' * 2 ^ e
        in if 2 ^ 1024 \<le> m then Inl OverflowError
           else Inr (Finite (if i < 0 then - of_nat m else of_nat m)))"

text \<open>
  \<^verbatim>\<open>float(v)\<close>. What \<^verbatim>\<open>float\<close> reads from a string is the interpreter's own parser: it is the
  parameter \<open>float_of_str\<close>, with \<open>None\<close> for the strings it refuses. The result is
  \<open>Inl\<close> for an exception that \<^verbatim>\<open>validate_problem\<close> does not catch, \<open>Inr None\<close> for the
  \<^verbatim>\<open>ValueError\<close> or \<^verbatim>\<open>TypeError\<close> it catches, \<open>Inr (Some f)\<close> for a float.
\<close>

fun py_float :: "(string \<Rightarrow> pyfloat option) \<Rightarrow> pyval \<Rightarrow> exn + pyfloat option" where
  "py_float float_of_str PyNone = Inr None"
| "py_float float_of_str (PyBool b) = Inr (Some (Finite (if b then 1 else 0)))"
| "py_float float_of_str (PyInt i) =
     (case float_of_int i of Inl e \<Rightarrow> Inl e | Inr f \<Rightarrow> Inr (Some f))"
| "py_float float_of_str (PyFloat f) = Inr (Some f)"
| "py_float float_of_str (PyStr s) = Inr (float_of_str s)"
| "py_float float_of_str (PyList xs) = Inr None"
| "py_float float_of_str (PyDict d) = Inr None"

text \<open>Order of floats: every comparison with NaN is false.\<close>

fun float_le :: "pyfloat \<Rightarrow> pyfloat \<Rightarrow> bool" where
  "float_le NaN _ = False"
| "float_le _ NaN = False"
| "float_le NegInf _ = True"
| "float_le _ PosInf = True"
| "float_le (Finite x) (Finite y) = (x \<le> y)"
| "float_le _ _ = False"

text \<open>
  The number a bound denotes when it is compared with a float: booleans and integers
  compare by their exact value, anything that is not a number makes \<^verbatim>\<open><=\<close> raise
  \<^verbatim>\<open>TypeError\<close>.
\<close>

fun number_of :: "pyval \<Rightarrow> pyfloat option" where
  "number_of (PyBool b) = Some (Finite (if b then 1 else 0))"
| "number_of (PyInt i) = Some (Finite (of_int i))"
| "number_of (PyFloat f) = Some f"
| "number_of _ = None"

text \<open>
  \<^verbatim>\<open>range_min <= actual_value <= range_max\<close>: the second comparison is evaluated only when
  the first is true.
\<close>

definition in_range :: "pyval \<Rightarrow> pyfloat \<Rightarrow> pyval \<Rightarrow> exn + bool" where
  "in_range range_min actual_value range_max =
     (case number_of range_min of
        None \<Rightarrow> Inl TypeError
      | Some lo \<Rightarrow>
          if \<not> float_le lo actual_value then Inr False
          else (case number_of range_max of
                  None \<Rightarrow> Inl TypeError
                | Some hi \<Rightarrow> Inr (float_le actual_value hi)))"

text \<open>
  \<^verbatim>\<open>rr\<close>: the \<^verbatim>\<open>range\<close> entry of the variable's declaration when the declaration is a
  dictionary, \<^verbatim>\<open>None\<close> otherwise; it is used when it is a list of length two.
\<close>

definition declared_range :: "pydict \<Rightarrow> string \<Rightarrow> (pyval \<times> pyval) option" where
  "declared_range variable_ranges var_name =
     (case map_of variable_ranges var_name of
        None \<Rightarrow> None
      | Some decl \<Rightarrow>
          (case (case decl of PyDict d \<Rightarrow> dict_get d ''range'' | _ \<Rightarrow> PyNone) of
             PyList [range_min, range_max] \<Rightarrow> Some (range_min, range_max)
           | _ \<Rightarrow> None))"

text \<open>
  The body of the loop over \<^verbatim>\<open>variables.items()\<close> for one variable: \<open>Inr None\<close> when the
  loop goes on, \<open>Inr (Some msg)\<close> when it returns the error \<open>msg\<close>.
\<close>

definition check_variable ::
  "(string \<Rightarrow> pyfloat option) \<Rightarrow> pydict \<Rightarrow> string \<Rightarrow> pydict \<Rightarrow> exn + message option" where
  "check_variable float_of_str variable_ranges var_name var_data =
     (if str_lower_is_nan (dict_get var_data ''value'') then Inr None
      else case declared_range variable_ranges var_name of
        None \<Rightarrow> Inr None
      | Some (range_min, range_max) \<Rightarrow>
          (case py_float float_of_str (dict_get var_data ''value'') of
             Inl e \<Rightarrow> Inl e
           | Inr None \<Rightarrow>
               Inr (Some [Txt ''Variable '', Txt [CHR 0x27], Str (PyStr var_name), Txt [CHR 0x27],
                          Txt '' has an invalid numerical value: '', Txt [CHR 0x27],
                          Str (dict_get var_data ''value''), Txt [CHR 0x27], Txt ''.''])
           | Inr (Some actual_value) \<Rightarrow>
               (case in_range range_min actual_value range_max of
                  Inl e \<Rightarrow> Inl e
                | Inr True \<Rightarrow> Inr None
                | Inr False \<Rightarrow>
                    Inr (Some [Str (PyStr var_name), Txt '' with value '',
                               Str (PyFloat actual_value), Txt '' is out of expected range ['',
                               Str range_min, Txt '', '', Str range_max, Txt ''].'']))))"

fun check_variables ::
  "(string \<Rightarrow> pyfloat option) \<Rightarrow> pydict \<Rightarrow> (string \<times> pydict) list \<Rightarrow> exn + message option" where
  "check_variables float_of_str variable_ranges [] = Inr None"
| "check_variables float_of_str variable_ranges ((var_name, var_data) # rest) =
     (case check_variable float_of_str variable_ranges var_name var_data of
        Inl e \<Rightarrow> Inl e
      | Inr (Some msg) \<Rightarrow> Inr (Some msg)
      | Inr None \<Rightarrow> check_variables float_of_str variable_ranges rest)"

text \<open>An entry of the recent history: signature, snippet and time of creation.\<close>

record history_entry =
  signature :: string
  snippet :: string
  created_at :: string

definition invalid :: "message \<Rightarrow> validation_result" where
  "invalid msg = \<lparr>valid = False, error = Some msg, unknown_var = None\<rparr>"

definition validate_problem ::
  "(string \<Rightarrow> pyfloat option) \<Rightarrow> candidate \<Rightarrow> formula_source \<Rightarrow> pydict
     \<Rightarrow> history_entry list \<Rightarrow> exn + validation_result" where
  "validate_problem float_of_str output formula_dict variable_ranges previous_problems =
     (let formula_id_set = formula_id_set_of formula_dict in
      if \<not> (\<forall>fid \<in> set (formula_ids output). fid \<in> formula_id_set)
      then Inr (invalid [Txt ''Invalid formula_id''])
      else
        let nan_vars = nan_vars_of (variables output) in
        if length nan_vars \<noteq> 1
        then Inr (invalid [Txt ''Must have exactly 1 unknown, found '',
                           Str (PyInt (int (length nan_vars)))])
        else
          case check_variables float_of_str variable_ranges (variables output) of
            Inl e \<Rightarrow> Inl e
          | Inr (Some msg) \<Rightarrow> Inr (invalid msg)
          | Inr None \<Rightarrow>
              if \<exists>prev_problem \<in> set previous_problems.
                   signature prev_problem = compute_problem_signature output
              then Inr (invalid [Txt ''Duplicate problem signature''])
              else Inr \<lparr>valid = True, error = None, unknown_var = Some (hd nan_vars)\<rparr>)"

text \<open>
  The end-to-end scenario of the specification: two formulas, a mass and an acceleration.
  The value of the mass and the marker of the unknown acceleration are arguments.
\<close>

definition scenario_variables :: "pyval \<Rightarrow> pyval \<Rightarrow> (string \<times> pydict) list" where
  "scenario_variables mass marker =
     [(''mass'', [(''value'', mass), (''unit'', PyStr ''kg'')]),
      (''acceleration'', [(''value'', marker), (''unit'', PyStr ''m/s^2'')])]"

definition scenario :: "pyval \<Rightarrow> pyval \<Rightarrow> candidate" where
  "scenario mass marker =
     \<lparr>formula_ids = [''F1'', ''F2''], variables = scenario_variables mass marker,
      word_problem = ''A block of 4 kg is pushed.''\<rparr>"

definition scenario_ranges :: pydict where
  "scenario_ranges = [(''mass'', PyDict [(''range'', PyList [PyInt 1, PyInt 10])])]"


section \<open>The code executor\<close>

text \<open>
  What running generated code does is the interpreter's business and an input of the
  model: \<^verbatim>\<open>exec(code, repl_globals)\<close> either raises or leaves a namespace, and a callable
  of the namespace, called without arguments, either raises or returns a value. An
  exception of generated code is of class \<^verbatim>\<open>Exception\<close>, and then \<^verbatim>\<open>except Exception\<close>
  catches it and \<^verbatim>\<open>str(e)\<close> is its message, or it is not (\<^verbatim>\<open>SystemExit\<close>,
  \<^verbatim>\<open>KeyboardInterrupt\<close>).
\<close>

datatype thrown = OfException string | NotOfException string

datatype call_result = Returns pyval | Throws thrown

datatype pyobj = Callable call_result | NotCallable

datatype exec_effect = ExecThrows thrown | Namespace "(string \<times> pyobj) list"

definition failed :: "message \<Rightarrow> execution_result" where
  "failed msg = \<lparr>valid = False, error = Some msg, result = None\<rparr>"

text \<open>\<^verbatim>\<open>isinstance(result, (int, float))\<close>: booleans are integers in Python.\<close>

fun is_int_or_float :: "pyval \<Rightarrow> bool" where
  "is_int_or_float (PyBool b) = True"
| "is_int_or_float (PyInt i) = True"
| "is_int_or_float (PyFloat f) = True"
| "is_int_or_float _ = False"

text \<open>
  \<^verbatim>\<open>math.isnan(result) or math.isinf(result)\<close> on a number: both convert an integer to a
  float first, which raises \<^verbatim>\<open>OverflowError\<close> for an integer too large for a double.
\<close>

fun isnan_or_isinf :: "pyval \<Rightarrow> exn + bool" where
  "isnan_or_isinf (PyFloat f) = Inr (f = NaN \<or> f = PosInf \<or> f = NegInf)"
| "isnan_or_isinf (PyInt i) = (case float_of_int i of Inl e \<Rightarrow> Inl e | Inr f \<Rightarrow> Inr False)"
| "isnan_or_isinf _ = Inr False"

text \<open>\<^verbatim>\<open>result < 0\<close> on a number.\<close>

fun negative :: "pyval \<Rightarrow> bool" where
  "negative (PyInt i) = (i < 0)"
| "negative (PyFloat (Finite x)) = (x < 0)"
| "negative (PyFloat NegInf) = True"
| "negative _ = False"

definition sign_tokens :: "string list" where
  "sign_tokens = [''mass'', ''distance'', ''time'', ''speed'', ''velocity'', ''energy'']"

text \<open>The checks on the value \<^verbatim>\<open>solve()\<close> returned, after the \<^verbatim>\<open>try\<close> block.\<close>

definition check_result :: "pyval \<Rightarrow> (string \<times> pydict) list \<Rightarrow> exn + execution_result" where
  "check_result res vars =
     (if res = PyNone \<or> \<not> is_int_or_float res
      then Inr (failed [Txt ''Invalid return type''])
      else case isnan_or_isinf res of
        Inl e \<Rightarrow> Inl e
      | Inr True \<Rightarrow> Inr (failed [Txt ''Result is NaN or Inf''])
      | Inr False \<Rightarrow>
          (case nan_vars_of vars of
             unknown # _ \<Rightarrow>
               if negative res \<and> (\<exists>x \<in> set sign_tokens. contains (lower unknown) x)
               then Inr \<lparr>valid = False,
                         error = Some [Txt ''Negative value for '', Str (PyStr unknown)],
                         result = Some res\<rparr>
               else Inr \<lparr>valid = True, error = None, result = Some res\<rparr>
           | [] \<Rightarrow> Inr \<lparr>valid = True, error = None, result = Some res\<rparr>))"

text \<open>
  \<^verbatim>\<open>execute_and_validate_in_repl\<close>. The interpreter \<open>py_exec\<close> gives the effect of
  \<^verbatim>\<open>exec(code, repl_globals)\<close> on the empty namespace.
\<close>

definition execute_and_validate_in_repl ::
  "(string \<Rightarrow> exec_effect) \<Rightarrow> string \<Rightarrow> (string \<times> pydict) list \<Rightarrow> exn + execution_result" where
  "execute_and_validate_in_repl py_exec code vars =
     (case py_exec code of
        ExecThrows (OfException msg) \<Rightarrow>
          Inr (failed [Txt ''Execution failed: '', Str (PyStr msg)])
      | ExecThrows (NotOfException msg) \<Rightarrow> Inl (Uncaught msg)
      | Namespace repl_globals \<Rightarrow>
          (case map_of repl_globals ''solve'' of
             None \<Rightarrow> Inr (failed [Txt (CHR 0x27 # ''solve()'' @ [CHR 0x27] @ '' function not found'')])
           | Some NotCallable \<Rightarrow>
               Inr (failed [Txt (CHR 0x27 # ''solve()'' @ [CHR 0x27] @ '' function not found'')])
           | Some (Callable (Throws (OfException msg))) \<Rightarrow>
               Inr (failed [Txt ''Execution failed: '', Str (PyStr msg)])
           | Some (Callable (Throws (NotOfException msg))) \<Rightarrow> Inl (Uncaught msg)
           | Some (Callable (Returns res)) \<Rightarrow> check_result res vars))"

text \<open>An interpreter for the examples: what \<^verbatim>\<open>exec\<close> does with a few programs.\<close>

definition example_interpreter :: "string \<Rightarrow> exec_effect" where
  "example_interpreter code =
     (if code = ''x = 1/0'' then ExecThrows (OfException ''division by zero'')
      else if code = ''def helper(): return 1''
        then Namespace [(''helper'', Callable (Returns (PyInt 1)))]
      else if code = ''def solve(): return 1/0''
        then Namespace [(''solve'', Callable (Throws (OfException ''division by zero'')))]
      else if code = ''def solve(): return -5''
        then Namespace [(''solve'', Callable (Returns (PyInt (- 5))))]
      else if code = ''def solve(): return 1e999''
        then Namespace [(''solve'', Callable (Returns (PyFloat PosInf)))]
      else if code = ''def solve(): return str(5)''
        then Namespace [(''solve'', Callable (Returns (PyStr ''5'')))]
      else if code = ''def solve(): return True''
        then Namespace [(''solve'', Callable (Returns (PyBool True)))]
      else Namespace [])"


section \<open>The orchestrator\<close>

text \<open>
  The main script calls the language model and then works on what came back. What the
  model answers is an input: for one generation cycle, the answers to the five calls the
  cycle can make. A call either raises (the \<^verbatim>\<open>except Exception\<close> around it catches that)
  or returns a text. For the candidate calls the script holds \<^verbatim>\<open>llm_op_to_json\<close> of the text:
  the parsed candidate, or \<open>None\<close> when nothing usable was parsed (\<^verbatim>\<open>if not
  op_call2_data\<close>). For the code calls it holds \<^verbatim>\<open>sanitize_code_text\<close> of the text.
  \<open>now\<close> is the clock read when a success is recorded.
\<close>

datatype 'a reply = LlmRaises | LlmReturns 'a

record cycle_script =
  call2 :: "candidate option reply"
  call2a :: "candidate option reply"
  call2b :: "candidate option reply"
  call3 :: "string reply"
  call3a :: "string reply"
  now :: string

text \<open>
  The calls a cycle makes, in order, each with the \<^verbatim>\<open>error_message\<close> put into its prompt
  (\<open>None\<close> for the first prompts \<^verbatim>\<open>sys_call2\<close> and \<^verbatim>\<open>sys_call3\<close>, which have none).
\<close>

datatype llm_call = Generate "message option" | GenerateCode "message option"

record success_record =
  rec_signature :: string
  rec_formula_ids :: "string list"
  rec_unknown_var :: "string option"
  rec_word_problem :: string
  rec_variables :: "(string \<times> pydict) list"
  rec_code :: string
  rec_result :: "pyval option"
  rec_execution_result :: execution_result
  rec_validation_result :: validation_result
  rec_created_at :: string
  rec_Pair_Number :: int
  rec_source_problem_ID :: string

text \<open>
  The variables of the main script that a cycle reads and writes, and the log of the
  calls to the model.
\<close>

record run_state =
  previous_problems :: "history_entry list"
  per_row_successful :: "success_record list"
  total_cycles_attempted :: nat
  duplicates_skipped :: nat
  parse_failures :: nat
  execution_failures :: nat
  calls :: "llm_call list"

text \<open>What is fixed while one CSV row is processed.\<close>

record row =
  formula_id_set :: formula_source
  variable_ranges :: pydict
  Pair_Number :: int
  source_problem_ID :: string

text \<open>The two services of the Python runtime that the model takes as parameters.\<close>

record python =
  read_float :: "string \<Rightarrow> pyfloat option"
  run_exec :: "string \<Rightarrow> exec_effect"

text \<open>
  How a stage of the cycle ends: with \<^verbatim>\<open>continue\<close> (the cycle is given up), with an
  exception that nothing catches, or with a value for the next stage.
\<close>

datatype 'a step = Skip run_state | Crash exn | Go 'a run_state

definition log_call :: "llm_call \<Rightarrow> run_state \<Rightarrow> run_state" where
  "log_call c st = st\<lparr>calls := calls st @ [c]\<rparr>"

definition count_parse_failure :: "run_state \<Rightarrow> run_state" where
  "count_parse_failure st = st\<lparr>parse_failures := parse_failures st + 1\<rparr>"

definition count_execution_failure :: "run_state \<Rightarrow> run_state" where
  "count_execution_failure st = st\<lparr>execution_failures := execution_failures st + 1\<rparr>"

definition parse_hint :: message where
  "parse_hint = [Txt ''Parsing failure from previous response.'']"

text \<open>Call 2 and the retry on a parse failure.\<close>

definition generate :: "cycle_script \<Rightarrow> run_state \<Rightarrow> candidate step" where
  "generate sc st0 =
     (let st = log_call (Generate None) st0 in
      case call2 sc of
        LlmRaises \<Rightarrow> Skip (count_parse_failure st)
      | LlmReturns (Some op_call2_data) \<Rightarrow> Go op_call2_data st
      | LlmReturns None \<Rightarrow>
          (let st = log_call (Generate (Some parse_hint)) (count_parse_failure st) in
           case call2a sc of
             LlmRaises \<Rightarrow> Skip st
           | LlmReturns None \<Rightarrow> Skip (count_parse_failure st)
           | LlmReturns (Some op_call2_data) \<Rightarrow> Go op_call2_data st))"

definition validate :: "python \<Rightarrow> row \<Rightarrow> candidate \<Rightarrow> run_state \<Rightarrow> exn + validation_result" where
  "validate py r op_call2_data st =
     validate_problem (read_float py) op_call2_data (formula_id_set r) (variable_ranges r)
       (previous_problems st)"

definition error_message_of :: "validation_result \<Rightarrow> message" where
  "error_message_of validation_result =
     (case error validation_result of
        Some msg \<Rightarrow> msg
      | None \<Rightarrow> [Txt ''Unknown validation error''])"

text \<open>The validation and the retry of Call 2 with the validator's message.\<close>

definition validate_with_retry ::
  "python \<Rightarrow> row \<Rightarrow> cycle_script \<Rightarrow> candidate \<Rightarrow> run_state
     \<Rightarrow> (candidate \<times> validation_result) step" where
  "validate_with_retry py r sc op_call2_data st0 =
     (case validate py r op_call2_data st0 of
        Inl e \<Rightarrow> Crash e
      | Inr validation_result \<Rightarrow>
          if valid validation_result then Go (op_call2_data, validation_result) st0
          else
            (let st = log_call (Generate (Some (error_message_of validation_result))) st0 in
             case call2b sc of
               LlmRaises \<Rightarrow> Skip (count_parse_failure st)
             | LlmReturns None \<Rightarrow> Skip (count_parse_failure st)
             | LlmReturns (Some retried) \<Rightarrow>
                 (case validate py r retried st of
                    Inl e \<Rightarrow> Crash e
                  | Inr validation_result \<Rightarrow>
                      if valid validation_result then Go (retried, validation_result) st
                      else Skip (count_parse_failure st))))"

text \<open>The check of the signature against \<^verbatim>\<open>previous_problems\<close> in the main script.\<close>

definition check_duplicate :: "candidate \<Rightarrow> run_state \<Rightarrow> string step" where
  "check_duplicate op_call2_data st =
     (let sig = compute_problem_signature op_call2_data in
      if \<exists>p \<in> set (previous_problems st). signature p = sig
      then Skip (st\<lparr>duplicates_skipped := duplicates_skipped st + 1\<rparr>)
      else Go sig st)"

definition execution_error_of :: "execution_result \<Rightarrow> message" where
  "execution_error_of action3_result =
     (case error action3_result of
        Some msg \<Rightarrow> msg
      | None \<Rightarrow> [Txt ''Execution failed''])"

text \<open>Call 3, the execution, and the retry of Call 3 with the executor's message.\<close>

definition generate_code ::
  "python \<Rightarrow> cycle_script \<Rightarrow> candidate \<Rightarrow> run_state \<Rightarrow> (string \<times> execution_result) step" where
  "generate_code py sc op_call2_data st0 =
     (let st = log_call (GenerateCode None) st0 in
      case call3 sc of
        LlmRaises \<Rightarrow> Skip (count_execution_failure st)
      | LlmReturns code_text \<Rightarrow>
          (case execute_and_validate_in_repl (run_exec py) code_text (variables op_call2_data) of
             Inl e \<Rightarrow> Crash e
           | Inr action3_result \<Rightarrow>
               if valid action3_result then Go (code_text, action3_result) st
               else
                 (let st = log_call (GenerateCode (Some (execution_error_of action3_result))) st in
                  case call3a sc of
                    LlmRaises \<Rightarrow> Skip (count_execution_failure st)
                  | LlmReturns retried \<Rightarrow>
                      (case execute_and_validate_in_repl (run_exec py) retried
                              (variables op_call2_data) of
                         Inl e \<Rightarrow> Crash e
                       | Inr action3_result \<Rightarrow>
                           if valid action3_result then Go (retried, action3_result) st
                           else Skip (count_execution_failure st)))))"

text \<open>The success: the record is appended, the history gets a new first entry and is cut to 10.\<close>

definition record_success ::
  "row \<Rightarrow> cycle_script \<Rightarrow> candidate \<Rightarrow> validation_result \<Rightarrow> string \<Rightarrow> string
     \<Rightarrow> execution_result \<Rightarrow> run_state \<Rightarrow> run_state" where
  "record_success r sc op_call2_data validation_result sig code_text action3_result st =
     (let successful_record =
            \<lparr>rec_signature = sig,
             rec_formula_ids = formula_ids op_call2_data,
             rec_unknown_var = unknown_var validation_result,
             rec_word_problem = word_problem op_call2_data,
             rec_variables = variables op_call2_data,
             rec_code = code_text,
             rec_result = result action3_result,
             rec_execution_result = action3_result,
             rec_validation_result = validation_result,
             rec_created_at = now sc,
             rec_Pair_Number = Pair_Number r,
             rec_source_problem_ID = source_problem_ID r\<rparr>;
          entry = \<lparr>signature = sig, snippet = take 140 (word_problem op_call2_data),
                   created_at = now sc\<rparr>
      in st\<lparr>per_row_successful := per_row_successful st @ [successful_record],
            previous_problems := take 10 (entry # previous_problems st)\<rparr>)"

text \<open>One pass of the body of \<^verbatim>\<open>for cycle_no in range(2)\<close>.\<close>

definition run_cycle :: "python \<Rightarrow> row \<Rightarrow> cycle_script \<Rightarrow> run_state \<Rightarrow> exn + run_state" where
  "run_cycle py r sc st0 =
     (case generate sc (st0\<lparr>total_cycles_attempted := total_cycles_attempted st0 + 1\<rparr>) of
        Skip st \<Rightarrow> Inr st
      | Crash e \<Rightarrow> Inl e
      | Go op_call2_data st \<Rightarrow>
          (case validate_with_retry py r sc op_call2_data st of
             Skip st \<Rightarrow> Inr st
           | Crash e \<Rightarrow> Inl e
           | Go (op_call2_data, validation_result) st \<Rightarrow>
               (case check_duplicate op_call2_data st of
                  Skip st \<Rightarrow> Inr st
                | Crash e \<Rightarrow> Inl e
                | Go sig st \<Rightarrow>
                    (case generate_code py sc op_call2_data st of
                       Skip st \<Rightarrow> Inr st
                     | Crash e \<Rightarrow> Inl e
                     | Go (code_text, action3_result) st \<Rightarrow>
                         Inr (record_success r sc op_call2_data validation_result sig
                                code_text action3_result st)))))"

definition max_iterations :: nat where
  "max_iterations = 12"

definition target_problems :: nat where
  "target_problems = 10"

text \<open>
  The \<^verbatim>\<open>while\<close> loop of one row. \<open>script i k\<close> holds the answers of the model in cycle \<open>k\<close>
  (0 or 1) of the iteration that starts with \<^verbatim>\<open>current_iteration\<close> equal to \<open>i\<close>. The result
  is the final \<^verbatim>\<open>current_iteration\<close> and the final state, or the exception that ended the
  program.
\<close>

function generation_loop ::
  "python \<Rightarrow> row \<Rightarrow> (nat \<Rightarrow> nat \<Rightarrow> cycle_script) \<Rightarrow> nat \<Rightarrow> run_state \<Rightarrow> exn + nat \<times> run_state" where
  "generation_loop py r script current_iteration st =
     (if current_iteration < max_iterations \<and> length (per_row_successful st) < target_problems
      then case run_cycle py r (script current_iteration 0) st of
             Inl e \<Rightarrow> Inl e
           | Inr st1 \<Rightarrow>
               (case run_cycle py r (script current_iteration 1) st1 of
                  Inl e \<Rightarrow> Inl e
                | Inr st2 \<Rightarrow> generation_loop py r script (current_iteration + 1) st2)
      else Inr (current_iteration, st))"
  by pat_completeness auto
termination
  by (relation "measure (\<lambda>(py, r, script, current_iteration, st). max_iterations - current_iteration)")
    auto

text \<open>A row starts with \<^verbatim>\<open>current_iteration = 0\<close> and \<^verbatim>\<open>per_row_successful = []\<close>.\<close>

definition process_row_loop ::
  "python \<Rightarrow> row \<Rightarrow> (nat \<Rightarrow> nat \<Rightarrow> cycle_script) \<Rightarrow> run_state \<Rightarrow> exn + nat \<times> run_state" where
  "process_row_loop py r script st =
     generation_loop py r script 0 (st\<lparr>per_row_successful := []\<rparr>)"


declare generation_loop.simps [simp del]

subsection \<open>What a cycle leaves behind\<close>

text \<open>The state after a stage, when the program is still running.\<close>

fun final_state :: "'a step \<Rightarrow> run_state option" where
  "final_state (Skip st) = Some st"
| "final_state (Crash e) = None"
| "final_state (Go x st) = Some st"

text \<open>
  A stage that does not record a success leaves the collected records, the history and
  the number of cycles as they are.
\<close>

definition same_row :: "run_state \<Rightarrow> run_state \<Rightarrow> bool" where
  "same_row st st' \<longleftrightarrow>
     per_row_successful st' = per_row_successful st
     \<and> previous_problems st' = previous_problems st
     \<and> total_cycles_attempted st' = total_cycles_attempted st"

text \<open>
  The calls of one cycle: Call 2, at most one repetition after a parse failure, at most
  one repetition after a validation failure, and then nothing, Call 3, or Call 3 and
  one repetition of it.
\<close>

definition cycle_shape :: "llm_call list \<Rightarrow> bool" where
  "cycle_shape tr \<longleftrightarrow>
     (\<exists>g v c. tr = Generate None # g @ v @ c
        \<and> (g = [] \<or> g = [Generate (Some parse_hint)])
        \<and> (v = [] \<or> (\<exists>m. v = [Generate (Some m)]))
        \<and> (c = [] \<or> c = [GenerateCode None]
             \<or> (\<exists>m. c = [GenerateCode None, GenerateCode (Some m)])))"

subsection \<open>An example run\<close>

text \<open>
  A row whose first iteration yields one problem (its second cycle fails at Call 2) and
  whose later cycles all succeed, each with a new unknown variable.
\<close>

definition demo_python :: python where
  "demo_python = \<lparr>read_float = (\<lambda>s. None), run_exec = example_interpreter\<rparr>"

definition demo_row :: row where
  "demo_row = \<lparr>formula_id_set = FormulaIds [''F1'', ''F2''], variable_ranges = scenario_ranges,
     Pair_Number = 1, source_problem_ID = ''CSV_R1''\<rparr>"

definition initial_state :: run_state where
  "initial_state = \<lparr>previous_problems = [], per_row_successful = [], total_cycles_attempted = 0,
     duplicates_skipped = 0, parse_failures = 0, execution_failures = 0, calls = []\<rparr>"

definition named_candidate :: "string \<Rightarrow> candidate" where
  "named_candidate u = \<lparr>formula_ids = [''F1''], variables = [(u, [(''value'', PyStr ''NaN'')])],
     word_problem = ''Find '' @ u\<rparr>"

definition good_script :: "string \<Rightarrow> cycle_script" where
  "good_script u = \<lparr>call2 = LlmReturns (Some (named_candidate u)), call2a = LlmRaises,
     call2b = LlmRaises, call3 = LlmReturns ''def solve(): return True'', call3a = LlmRaises,
     now = ''2025-01-01T00:00:00''\<rparr>"

definition failing_script :: cycle_script where
  "failing_script = \<lparr>call2 = LlmRaises, call2a = LlmRaises,
     call2b = LlmRaises, call3 = LlmRaises, call3a = LlmRaises,
     now = ''2025-01-01T00:00:00''\<rparr>"

definition demo_script :: "nat \<Rightarrow> nat \<Rightarrow> cycle_script" where
  "demo_script i k = (if i = 0 \<and> k = 1 then failing_script
     else good_script (replicate (Suc (2 * i + k)) CHR ''q''))"


text \<open>
  What holds between the cycles of the example run: \<open>k\<close> problems are collected and the
  history holds only unknown variables of at most \<open>m\<close> letters.
\<close>

definition demo_invariant :: "nat \<Rightarrow> nat \<Rightarrow> run_state \<Rightarrow> bool" where
  "demo_invariant m k st \<longleftrightarrow>
     length (per_row_successful st) = k
     \<and> (\<forall>p \<in> set (previous_problems st).
           \<exists>j \<le> m. signature p = ''fids=[F1]|unknown='' @ replicate j CHR ''q'')"


text \<open>
  Two cycles that are given up: one whose candidate is rejected by the validator twice,
  one whose code fails in the executor twice.
\<close>

definition validation_retry_script :: cycle_script where
  "validation_retry_script =
     \<lparr>call2 = LlmReturns (Some (scenario (PyInt 4) (PyStr ''unknown''))), call2a = LlmRaises,
      call2b = LlmReturns (Some (scenario (PyInt 4) (PyStr ''unknown''))),
      call3 = LlmRaises, call3a = LlmRaises, now = ''2025-01-01T00:00:00''\<rparr>"

definition execution_retry_script :: cycle_script where
  "execution_retry_script =
     \<lparr>call2 = LlmReturns (Some (scenario (PyInt 4) (PyStr ''NaN''))), call2a = LlmRaises,
      call2b = LlmRaises, call3 = LlmReturns ''x = 1/0'',
      call3a = LlmReturns ''def helper(): return 1'', now = ''2025-01-01T00:00:00''\<rparr>"

section \<open>The file of successful problems\<close>

text \<open>
  \<^verbatim>\<open>existing_records\<close> holds what \<^verbatim>\<open>json.load\<close> returned, with the records of this run
  appended to it.
\<close>

datatype stored = Loaded pyval | Fresh success_record

text \<open>
  What the main script finds at \<^verbatim>\<open>success_file_path\<close>: no file, a file that \<^verbatim>\<open>open\<close> or
  \<^verbatim>\<open>json.load\<close> raises on, or a file that parses to a JSON value.
\<close>

datatype store_file = Absent | Unreadable | Json pyval

text \<open>The two warnings the loading prints.\<close>

datatype warning = NotAList | CouldNotRead

fun load_existing_records :: "store_file \<Rightarrow> stored list \<times> warning option" where
  "load_existing_records Absent = ([], None)"
| "load_existing_records Unreadable = ([], Some CouldNotRead)"
| "load_existing_records (Json data) =
     (case data of
        PyList xs \<Rightarrow> (map Loaded xs, None)
      | _ \<Rightarrow> ([], Some NotAList))"

text \<open>The truth value of a JSON value.\<close>

fun truthy :: "pyval \<Rightarrow> bool" where
  "truthy PyNone = False"
| "truthy (PyBool b) = b"
| "truthy (PyInt i) = (i \<noteq> 0)"
| "truthy (PyFloat f) = (f \<noteq> Finite 0)"
| "truthy (PyStr s) = (s \<noteq> [])"
| "truthy (PyList xs) = (xs \<noteq> [])"
| "truthy (PyDict d) = (d \<noteq> [])"

text \<open>Lists and dictionaries cannot be members of a set: adding one raises \<^verbatim>\<open>TypeError\<close>.\<close>

fun hashable :: "pyval \<Rightarrow> bool" where
  "hashable (PyList xs) = False"
| "hashable (PyDict d) = False"
| "hashable v = True"

text \<open>\<^verbatim>\<open>r.get('signature')\<close> for the records that are dictionaries.\<close>

fun get_signature :: "stored \<Rightarrow> pyval option" where
  "get_signature (Fresh r) = Some (PyStr (rec_signature r))"
| "get_signature (Loaded (PyDict d)) = Some (dict_get d ''signature'')"
| "get_signature (Loaded v) = None"

text \<open>
  The values that
  \<^verbatim>\<open>{r.get('signature') for r in existing_records if isinstance(r, dict) and r.get('signature')}\<close>
  goes through, in order, and the set it builds. Membership in the set is only ever
  tested for strings, and a string is equal to no value of another type.
\<close>

definition listed_signature :: "stored \<Rightarrow> pyval option" where
  "listed_signature r =
     (case get_signature r of
        None \<Rightarrow> None
      | Some sig \<Rightarrow> if truthy sig then Some sig else None)"

definition signatures :: "stored list \<Rightarrow> pyval list" where
  "signatures rs = List.map_filter listed_signature rs"

definition signature_set :: "stored list \<Rightarrow> exn + pyval set" where
  "signature_set rs =
     (if list_all hashable (signatures rs) then Inr (set (signatures rs)) else Inl TypeError)"

record store =
  existing_records :: "stored list"
  existing_signatures :: "pyval set"

text \<open>The start of the main script: the records, the set of their signatures, the warning.\<close>

definition open_store :: "store_file \<Rightarrow> exn + store \<times> warning option" where
  "open_store f =
     (case load_existing_records f of
        (rs, w) \<Rightarrow>
          (case signature_set rs of
             Inl e \<Rightarrow> Inl e
           | Inr sigs \<Rightarrow> Inr (\<lparr>existing_records = rs, existing_signatures = sigs\<rparr>, w)))"

text \<open>The loop \<^verbatim>\<open>for rec in per_row_successful\<close> after a row.\<close>

fun merge :: "success_record list \<Rightarrow> store \<Rightarrow> store" where
  "merge [] s = s"
| "merge (r # per_row) s =
     (let sig = rec_signature r in
      if sig \<noteq> [] \<and> PyStr sig \<notin> existing_signatures s
      then merge per_row
             \<lparr>existing_records = existing_records s @ [Fresh r],
              existing_signatures = insert (PyStr sig) (existing_signatures s)\<rparr>
      else merge per_row s)"

text \<open>
  The merge and the call of \<^verbatim>\<open>atomic_write_json\<close>, which either replaces the file by the
  dump of \<^verbatim>\<open>existing_records\<close> or raises before \<^verbatim>\<open>os.replace\<close>; the exception is caught and
  reported. The second component is what the file was replaced by, \<open>None\<close> when it was left
  as it was.
\<close>

definition merge_and_write ::
  "bool \<Rightarrow> success_record list \<Rightarrow> store \<Rightarrow> store \<times> stored list option" where
  "merge_and_write write_succeeds per_row s =
     (let s' = merge per_row s in
      (s', if write_succeeds then Some (existing_records s') else None))"

text \<open>Records and files for the examples.\<close>

definition example_record :: "string \<Rightarrow> success_record" where
  "example_record u =
     \<lparr>rec_signature = ''fids=[F1]|unknown='' @ u,
      rec_formula_ids = [''F1''],
      rec_unknown_var = Some u,
      rec_word_problem = ''Find '' @ u,
      rec_variables = [(u, [(''value'', PyStr ''NaN'')])],
      rec_code = ''def solve(): return True'',
      rec_result = Some (PyBool True),
      rec_execution_result = \<lparr>valid = True, error = None, result = Some (PyBool True)\<rparr>,
      rec_validation_result = \<lparr>valid = True, error = None, unknown_var = Some u\<rparr>,
      rec_created_at = ''2025-01-01T00:00:00'',
      rec_Pair_Number = 1,
      rec_source_problem_ID = ''CSV_R1''\<rparr>"

definition saved_record :: "string \<Rightarrow> pyval" where
  "saved_record u =
     PyDict [(''signature'', PyStr (''fids=[F1]|unknown='' @ u)), (''word_problem'', PyStr (''Find '' @ u))]"

section \<open>The signature\<close>

lemma sort_mset_eq:
  fixes xs ys :: "string list"
  assumes "mset xs = mset ys"
  shows "sort xs = sort ys"
  using assms by (metis properties_for_sort sorted_sort mset_sort)

text \<open>
  Claim C4. The signature of a candidate is the string \<^verbatim>\<open>fids=[\<close>, the formula ids sorted
  as strings and joined by commas, \<^verbatim>\<open>]|unknown=\<close>, and the name of the unknown variable
  (the first variable whose value reads \<^verbatim>\<open>nan\<close>; the text \<^verbatim>\<open>None\<close> when there is none).
  It is a function defined on every candidate, two candidates whose formula ids are
  permutations of each other and whose variables are the same have the same signature,
  and two candidates with the same formula ids up to order and different unknown
  variables have different signatures.
\<close>

theorem signature_canonical:
  "compute_problem_signature c =
     ''fids=['' @ join '','' (sort (formula_ids c)) @ '']|unknown=''
       @ str_opt (first_unknown (variables c))
   \<and> (mset (formula_ids c) = mset (formula_ids c1) \<and> variables c = variables c1
        \<longrightarrow> compute_problem_signature c = compute_problem_signature c1)
   \<and> (mset (formula_ids c) = mset (formula_ids c2)
        \<and> first_unknown (variables c) = Some u \<and> first_unknown (variables c2) = Some u2
        \<and> u \<noteq> u2
        \<longrightarrow> compute_problem_signature c \<noteq> compute_problem_signature c2)"
proof (intro conjI impI)
  show "compute_problem_signature c =
     ''fids=['' @ join '','' (sort (formula_ids c)) @ '']|unknown=''
       @ str_opt (first_unknown (variables c))"
    by (simp add: compute_problem_signature_def Let_def)
next
  assume h: "mset (formula_ids c) = mset (formula_ids c1) \<and> variables c = variables c1"
  from h have "sort (formula_ids c) = sort (formula_ids c1)"
    by (intro sort_mset_eq) simp
  with h show "compute_problem_signature c = compute_problem_signature c1"
    by (simp add: compute_problem_signature_def Let_def)
next
  assume h: "mset (formula_ids c) = mset (formula_ids c2)
        \<and> first_unknown (variables c) = Some u \<and> first_unknown (variables c2) = Some u2
        \<and> u \<noteq> u2"
  from h have "sort (formula_ids c) = sort (formula_ids c2)"
    by (intro sort_mset_eq) simp
  with h show "compute_problem_signature c \<noteq> compute_problem_signature c2"
    by (simp add: compute_problem_signature_def Let_def str_opt_def)
qed

theorem signature_canonical_witness:
  "compute_problem_signature ((scenario (PyInt 4) (PyStr ''NaN''))\<lparr>formula_ids := [''F2'', ''F1'']\<rparr>)
     = ''fids=[F1,F2]|unknown=acceleration''
   \<and> compute_problem_signature ((scenario (PyInt 4) (PyStr ''NaN''))\<lparr>formula_ids := [''F2'', ''F1'']\<rparr>)
     = compute_problem_signature (scenario (PyInt 4) (PyStr ''NaN''))
   \<and> compute_problem_signature ((scenario (PyInt 4) (PyStr ''NaN''))\<lparr>formula_ids := [''F2'', ''F1'']\<rparr>)
     \<noteq> compute_problem_signature
          \<lparr>formula_ids = [''F1'', ''F2''],
           variables = [(''mass'', [(''value'', PyStr ''nan'')]),
                        (''acceleration'', [(''value'', PyInt 2)])],
           word_problem = []\<rparr>"
proof -
  let ?c = "(scenario (PyInt 4) (PyStr ''NaN''))\<lparr>formula_ids := [''F2'', ''F1'']\<rparr>"
  let ?c1 = "scenario (PyInt 4) (PyStr ''NaN'')"
  let ?c2 = "\<lparr>formula_ids = [''F1'', ''F2''],
           variables = [(''mass'', [(''value'', PyStr ''nan'')]),
                        (''acceleration'', [(''value'', PyInt 2)])],
           word_problem = []\<rparr>"
  note t = signature_canonical [of ?c ?c1 ?c2 "''acceleration''" "''mass''"]
  have a: "mset (formula_ids ?c) = mset (formula_ids ?c1) \<and> variables ?c = variables ?c1"
    by (simp add: scenario_def)
  have b: "mset (formula_ids ?c) = mset (formula_ids ?c2)
        \<and> first_unknown (variables ?c) = Some ''acceleration''
        \<and> first_unknown (variables ?c2) = Some ''mass''
        \<and> ''acceleration'' \<noteq> ''mass''"
    by (simp add: scenario_def scenario_variables_def dict_get_def lower_def lower_char_def)
  have "first_unknown (variables ?c) = Some ''acceleration''"
    using b by blast
  moreover have "sort (formula_ids ?c) = [''F1'', ''F2'']"
    by simp
  ultimately have 1: "compute_problem_signature ?c = ''fids=[F1,F2]|unknown=acceleration''"
    using t by (simp add: str_opt_def)
  from t a have 2: "compute_problem_signature ?c = compute_problem_signature ?c1"
    by blast
  from t b have 3: "compute_problem_signature ?c \<noteq> compute_problem_signature ?c2"
    by blast
  from 1 2 3 show ?thesis
    by blast
qed

section \<open>The candidate validator: properties\<close>



lemma scenario_ids_known:
  "\<forall>fid \<in> set (formula_ids (scenario m u)). fid \<in> formula_id_set_of (FormulaIds [''F1'', ''F2''])"
  by (simp add: scenario_def formula_id_set_of_def)

lemma scenario_nan_vars:
  "nan_vars_of (variables (scenario (PyInt m) (PyStr ''NaN''))) = [''acceleration'']"
  "nan_vars_of (variables (scenario (PyStr ''heavy'') (PyStr ''NaN''))) = [''acceleration'']"
  "nan_vars_of (variables (scenario (PyInt m) (PyStr ''unknown''))) = []"
  by (simp_all add: scenario_def scenario_variables_def nan_vars_of_def dict_get_def lower_def
      lower_char_def)

text \<open>
  Claim C6. Whenever one of the candidate's formula ids is not among the known ids,
  \<^verbatim>\<open>validate_problem\<close> answers \<^verbatim>\<open>{'valid': False, 'error': 'Invalid formula_id'}\<close>, whatever
  the other ids, the variables, the ranges and the history are: the check comes first,
  before the count of unknowns, the ranges and the duplicates are looked at.
\<close>

theorem invalid_formula_id_first:
  assumes "\<exists>fid \<in> set (formula_ids c). fid \<notin> formula_id_set_of fd"
  shows "validate_problem f c fd vr prev = Inr (invalid [Txt ''Invalid formula_id''])"
  using assms by (auto simp add: validate_problem_def Let_def)

theorem invalid_formula_id_first_witness:
  "validate_problem (\<lambda>s. None) (scenario (PyInt 4) (PyStr ''unknown'')) (FormulaIds [''F1'', ''F7''])
     scenario_ranges []
     = Inr \<lparr>valid = False, error = Some [Txt ''Invalid formula_id''], unknown_var = None\<rparr>"
  using invalid_formula_id_first [of "scenario (PyInt 4) (PyStr ''unknown'')"
      "FormulaIds [''F1'', ''F7'']" "\<lambda>s. None" scenario_ranges "[]"]
  by (simp add: scenario_def formula_id_set_of_def invalid_def)

text \<open>
  Claim C1, as stated, at the map of the specification's scenario: the acceleration
  carries the value \<^verbatim>\<open>"unknown"\<close>, the mass 4 lies in its range, both formula ids are known
  and the history is empty. The validator counts the values that read \<^verbatim>\<open>nan\<close>, finds none
  and rejects the candidate.
\<close>

theorem unknown_literal_counterexample:
  "validate_problem (\<lambda>s. None) (scenario (PyInt 4) (PyStr ''unknown''))
      (FormulaIds [''F1'', ''F2'']) scenario_ranges []
     = Inr \<lparr>valid = False,
            error = Some [Txt ''Must have exactly 1 unknown, found '', Str (PyInt 0)],
            unknown_var = None\<rparr>"
  by (simp add: validate_problem_def scenario_ids_known scenario_nan_vars invalid_def)

text \<open>
  Claim C1, amended. The marker of the unknown variable is a value that reads \<^verbatim>\<open>nan\<close>
  (the string \<^verbatim>\<open>"NaN"\<close> in any case, or the float NaN). When every formula id is known and
  the number of marked entries is not exactly 1, the candidate is rejected with a message
  that ends in the number found. A candidate is accepted only if exactly one entry is
  marked, and \<^verbatim>\<open>unknown_var\<close> is then that entry's name. When every formula id is known,
  exactly one entry is marked, the range checks pass and the signature is not in the
  history, the candidate is accepted.
\<close>

theorem exactly_one_unknown:
  "((\<forall>fid \<in> set (formula_ids c). fid \<in> formula_id_set_of fd)
      \<and> length (nan_vars_of (variables c)) \<noteq> 1
     \<longrightarrow> validate_problem f c fd vr prev =
           Inr (invalid [Txt ''Must have exactly 1 unknown, found '',
                         Str (PyInt (int (length (nan_vars_of (variables c)))))]))
   \<and> (validate_problem f c fd vr prev = Inr r \<and> valid r
     \<longrightarrow> (\<exists>u. nan_vars_of (variables c) = [u] \<and> unknown_var r = Some u))
   \<and> ((\<forall>fid \<in> set (formula_ids c). fid \<in> formula_id_set_of fd)
      \<and> nan_vars_of (variables c) = [u]
      \<and> check_variables f vr (variables c) = Inr None
      \<and> (\<forall>p \<in> set prev. signature p \<noteq> compute_problem_signature c)
     \<longrightarrow> validate_problem f c fd vr prev =
           Inr \<lparr>valid = True, error = None, unknown_var = Some u\<rparr>)"
proof (intro conjI impI)
  assume "(\<forall>fid \<in> set (formula_ids c). fid \<in> formula_id_set_of fd)
      \<and> length (nan_vars_of (variables c)) \<noteq> 1"
  then show "validate_problem f c fd vr prev =
           Inr (invalid [Txt ''Must have exactly 1 unknown, found '',
                         Str (PyInt (int (length (nan_vars_of (variables c)))))])"
    by (simp add: validate_problem_def Let_def)
next
  assume h: "validate_problem f c fd vr prev = Inr r \<and> valid r"
  then have "length (nan_vars_of (variables c)) = 1
      \<and> unknown_var r = Some (hd (nan_vars_of (variables c)))"
    by (auto simp add: validate_problem_def Let_def invalid_def
        split: if_splits sum.splits option.splits)
  then show "\<exists>u. nan_vars_of (variables c) = [u] \<and> unknown_var r = Some u"
    by (cases "nan_vars_of (variables c)") auto
next
  assume "(\<forall>fid \<in> set (formula_ids c). fid \<in> formula_id_set_of fd)
      \<and> nan_vars_of (variables c) = [u]
      \<and> check_variables f vr (variables c) = Inr None
      \<and> (\<forall>p \<in> set prev. signature p \<noteq> compute_problem_signature c)"
  then show "validate_problem f c fd vr prev =
           Inr \<lparr>valid = True, error = None, unknown_var = Some u\<rparr>"
    by (simp add: validate_problem_def Let_def)
qed

theorem exactly_one_unknown_witness:
  "validate_problem (\<lambda>s. None) (scenario (PyInt 4) (PyStr ''NaN'')) (FormulaIds [''F1'', ''F2''])
      scenario_ranges []
     = Inr \<lparr>valid = True, error = None, unknown_var = Some ''acceleration''\<rparr>
   \<and> nan_vars_of (variables (scenario (PyInt 4) (PyStr ''NaN''))) = [''acceleration'']
   \<and> validate_problem (\<lambda>s. None) (scenario (PyInt 4) (PyStr ''unknown''))
        (FormulaIds [''F1'', ''F2'']) scenario_ranges []
     = Inr (invalid [Txt ''Must have exactly 1 unknown, found '', Str (PyInt 0)])"
proof -
  let ?c = "scenario (PyInt 4) (PyStr ''NaN'')"
  let ?d = "scenario (PyInt 4) (PyStr ''unknown'')"
  let ?fd = "FormulaIds [''F1'', ''F2'']"
  let ?r = "\<lparr>valid = True, error = None, unknown_var = Some ''acceleration''\<rparr>"
  note t = exactly_one_unknown [of ?c ?fd "\<lambda>s. None" scenario_ranges "[]" ?r "''acceleration''"]
  note t0 = exactly_one_unknown [of ?d ?fd "\<lambda>s. None" scenario_ranges "[]"]
  have ids: "\<forall>fid \<in> set (formula_ids ?c). fid \<in> formula_id_set_of ?fd"
    by (rule scenario_ids_known)
  have nv: "nan_vars_of (variables ?c) = [''acceleration'']"
    by (simp add: scenario_nan_vars)
  have cv: "check_variables (\<lambda>s. None) scenario_ranges (variables ?c) = Inr None"
    by (simp add: scenario_def scenario_variables_def scenario_ranges_def check_variable_def
        declared_range_def dict_get_def lower_def lower_char_def float_of_int_def in_range_def)
  have nd: "\<forall>p \<in> set ([] :: history_entry list). signature p \<noteq> compute_problem_signature ?c"
    by simp
  from t ids nv cv nd have v: "validate_problem (\<lambda>s. None) ?c ?fd scenario_ranges [] = Inr ?r"
    by blast
  have "valid ?r"
    by simp
  with t v have "\<exists>u. nan_vars_of (variables ?c) = [u] \<and> unknown_var ?r = Some u"
    by blast
  have ids0: "\<forall>fid \<in> set (formula_ids ?d). fid \<in> formula_id_set_of ?fd"
    by (rule scenario_ids_known)
  have nv0: "nan_vars_of (variables ?d) = []"
    by (simp add: scenario_nan_vars)
  from t0 ids0 nv0 have "validate_problem (\<lambda>s. None) ?d ?fd scenario_ranges []
     = Inr (invalid [Txt ''Must have exactly 1 unknown, found '', Str (PyInt 0)])"
    by simp
  with v nv show ?thesis
    by blast
qed






text \<open>
  An exception of \<^verbatim>\<open>float\<close> that is not caught, and a bound that is not a number, end
  the validation with the exception.
\<close>

lemma float_exception_leaves_validation:
  assumes "\<not> str_lower_is_nan (dict_get data ''value'')"
    and "declared_range vr name = Some (lo, hi)"
    and "py_float f (dict_get data ''value'') = Inl e"
  shows "check_variable f vr name data = Inl e"
  using assms by (simp add: check_variable_def)

lemma bound_exception_leaves_validation:
  assumes "\<not> str_lower_is_nan (dict_get data ''value'')"
    and "declared_range vr name = Some (lo, hi)"
    and "py_float f (dict_get data ''value'') = Inr (Some a)"
    and "number_of lo = None"
  shows "check_variable f vr name data = Inl TypeError"
  using assms by (simp add: check_variable_def in_range_def)

section \<open>The code executor: properties\<close>

text \<open>
  Claim C10. A boolean returned by \<^verbatim>\<open>solve()\<close> passes as a number: the answer is
  \<^verbatim>\<open>{'valid': True, 'result': <the boolean>}\<close>, whatever the variables are.
\<close>

theorem boolean_result_accepted:
  assumes "py_exec code = Namespace ns"
    and "map_of ns ''solve'' = Some (Callable (Returns (PyBool b)))"
  shows "execute_and_validate_in_repl py_exec code vars =
           Inr \<lparr>valid = True, error = None, result = Some (PyBool b)\<rparr>"
  using assms
  by (simp add: execute_and_validate_in_repl_def check_result_def split: list.splits)

theorem boolean_result_accepted_witness:
  "execute_and_validate_in_repl example_interpreter ''def solve(): return True''
     (scenario_variables (PyInt 4) (PyStr ''NaN''))
   = Inr \<lparr>valid = True, error = None, result = Some (PyBool True)\<rparr>"
proof -
  have "example_interpreter ''def solve(): return True''
      = Namespace [(''solve'', Callable (Returns (PyBool True)))]"
    by (simp add: example_interpreter_def)
  moreover have "map_of [(''solve'', Callable (Returns (PyBool True)))] ''solve''
      = Some (Callable (Returns (PyBool True)))"
    by simp
  ultimately show ?thesis
    by (rule boolean_result_accepted)
qed







text \<open>
  The numbers on which \<^verbatim>\<open>math.isnan\<close> and \<^verbatim>\<open>math.isinf\<close> return \<^verbatim>\<open>False\<close>.
\<close>

lemma finite_number_iff:
  "is_int_or_float res \<and> isnan_or_isinf res = Inr False \<longleftrightarrow>
     (\<exists>b. res = PyBool b) \<or> (\<exists>x. res = PyFloat (Finite x))
     \<or> (\<exists>i x. res = PyInt i \<and> float_of_int i = Inr x)"
proof (cases res)
  case (PyFloat f)
  then show ?thesis
    by (cases f) auto
next
  case (PyInt i)
  then show ?thesis
    by (cases "float_of_int i") auto
qed auto

text \<open>
  An exception that is not of class \<^verbatim>\<open>Exception\<close>, and the \<^verbatim>\<open>OverflowError\<close> of \<^verbatim>\<open>math.isnan\<close>
  on an integer that \<^verbatim>\<open>float\<close> does not convert, leave the executor as exceptions.
\<close>

lemma uncaught_exception_leaves_executor:
  assumes "py_exec code = ExecThrows (NotOfException msg)
      \<or> (py_exec code = Namespace ns
           \<and> map_of ns ''solve'' = Some (Callable (Throws (NotOfException msg))))"
  shows "execute_and_validate_in_repl py_exec code vars = Inl (Uncaught msg)"
  using assms by (auto simp add: execute_and_validate_in_repl_def)

lemma isnan_exception_leaves_executor:
  assumes "py_exec code = Namespace ns"
    and "map_of ns ''solve'' = Some (Callable (Returns (PyInt i)))"
    and "float_of_int i = Inl e"
  shows "execute_and_validate_in_repl py_exec code vars = Inl e"
  using assms by (simp add: execute_and_validate_in_repl_def check_result_def)

section \<open>The orchestrator: properties\<close>

lemma same_row_simps:
  "same_row st st"
  "same_row st (log_call c st') = same_row st st'"
  "same_row st (count_parse_failure st') = same_row st st'"
  "same_row st (count_execution_failure st') = same_row st st'"
  by (simp_all add: same_row_def log_call_def count_parse_failure_def count_execution_failure_def)

lemma calls_simps:
  "calls (log_call c st) = calls st @ [c]"
  "calls (count_parse_failure st) = calls st"
  "calls (count_execution_failure st) = calls st"
  by (simp_all add: log_call_def count_parse_failure_def count_execution_failure_def)

lemma generate_calls:
  assumes "final_state (generate sc st) = Some st'"
  shows "same_row st st' \<and>
     (calls st' = calls st @ [Generate None]
      \<or> calls st' = calls st @ [Generate None, Generate (Some parse_hint)])"
  using assms
  by (auto simp add: generate_def Let_def same_row_simps calls_simps
      split: reply.splits option.splits)

lemma validate_state: "validate py r c (log_call x st) = validate py r c st"
  by (simp add: validate_def log_call_def)

lemma validate_with_retry_calls:
  assumes "final_state (validate_with_retry py r sc c st) = Some st'"
  shows "same_row st st' \<and>
     (calls st' = calls st \<or> (\<exists>m. calls st' = calls st @ [Generate (Some m)]))"
  using assms
  by (auto simp add: validate_with_retry_def Let_def same_row_simps calls_simps
      split: reply.splits option.splits sum.splits if_splits)

lemma check_duplicate_calls:
  assumes "final_state (check_duplicate c st) = Some st'"
  shows "same_row st st' \<and> calls st' = calls st"
  using assms
  by (auto simp add: check_duplicate_def Let_def same_row_def split: if_splits)

lemma generate_code_calls:
  assumes "final_state (generate_code py sc c st) = Some st'"
  shows "same_row st st' \<and>
     (calls st' = calls st @ [GenerateCode None]
      \<or> (\<exists>m. calls st' = calls st @ [GenerateCode None, GenerateCode (Some m)]))"
  using assms
  by (auto simp add: generate_code_def Let_def same_row_simps calls_simps
      split: reply.splits option.splits sum.splits if_splits)

lemma cycle_shapeI:
  assumes a: "a = [Generate None] \<or> a = [Generate None, Generate (Some parse_hint)]"
    and v: "v = [] \<or> (\<exists>m. v = [Generate (Some m)])"
    and c: "c = [] \<or> c = [GenerateCode None] \<or> (\<exists>m. c = [GenerateCode None, GenerateCode (Some m)])"
  shows "cycle_shape (a @ v @ c)"
proof -
  from a obtain g where g: "a = Generate None # g" "g = [] \<or> g = [Generate (Some parse_hint)]"
    by auto
  have "a @ v @ c = Generate None # g @ v @ c"
    using g by simp
  with g v c show ?thesis
    unfolding cycle_shape_def by blast
qed

lemma generate_calls':
  assumes "final_state (generate sc st) = Some st'"
  obtains a where "calls st' = calls st @ a"
    "a = [Generate None] \<or> a = [Generate None, Generate (Some parse_hint)]"
  using generate_calls [OF assms] by auto

lemma validate_with_retry_calls':
  assumes "final_state (validate_with_retry py r sc c st) = Some st'"
  obtains v where "calls st' = calls st @ v" "v = [] \<or> (\<exists>m. v = [Generate (Some m)])"
  using validate_with_retry_calls [OF assms] by auto

lemma generate_code_calls':
  assumes "final_state (generate_code py sc c st) = Some st'"
  obtains k where "calls st' = calls st @ k"
    "k = [GenerateCode None] \<or> (\<exists>m. k = [GenerateCode None, GenerateCode (Some m)])"
  using generate_code_calls [OF assms] by auto

lemma run_cycle_effect:
  assumes run: "run_cycle py r sc st = Inr st'"
  shows "total_cycles_attempted st' = total_cycles_attempted st + 1
     \<and> (\<exists>tr. calls st' = calls st @ tr \<and> cycle_shape tr)
     \<and> (per_row_successful st' = per_row_successful st
          \<or> (\<exists>x. per_row_successful st' = per_row_successful st @ [x]))"
proof -
  let ?s0 = "st\<lparr>total_cycles_attempted := total_cycles_attempted st + 1\<rparr>"
  have s0: "per_row_successful ?s0 = per_row_successful st" "calls ?s0 = calls st"
    "total_cycles_attempted ?s0 = total_cycles_attempted st + 1"
    by simp_all
  show ?thesis
  proof (cases "generate sc ?s0")
    case (Crash e)
    with run show ?thesis by (simp add: run_cycle_def)
  next
    case (Skip s)
    with run have st': "st' = s" by (simp add: run_cycle_def)
    from Skip have f: "final_state (generate sc ?s0) = Some s" by simp
    from generate_calls [OF f] have same: "same_row ?s0 s" by simp
    from f obtain a where a: "calls s = calls ?s0 @ a"
      "a = [Generate None] \<or> a = [Generate None, Generate (Some parse_hint)]"
      by (rule generate_calls')
    have "cycle_shape (a @ [] @ [])"
      by (rule cycle_shapeI) (use a in simp_all)
    with a s0 have "\<exists>tr. calls st' = calls st @ tr \<and> cycle_shape tr"
      by (simp add: st')
    with same s0 show ?thesis
      by (simp add: st' same_row_def)
  next
    case (Go c s1)
    then have f1: "final_state (generate sc ?s0) = Some s1" by simp
    from generate_calls [OF f1] have same1: "same_row ?s0 s1" by simp
    from f1 obtain a where a: "calls s1 = calls ?s0 @ a"
      "a = [Generate None] \<or> a = [Generate None, Generate (Some parse_hint)]"
      by (rule generate_calls')
    show ?thesis
    proof (cases "validate_with_retry py r sc c s1")
      case (Crash e)
      with run Go show ?thesis by (simp add: run_cycle_def)
    next
      case (Skip s)
      with run Go have st': "st' = s" by (simp add: run_cycle_def)
      from Skip have f: "final_state (validate_with_retry py r sc c s1) = Some s" by simp
      from validate_with_retry_calls [OF f] have same: "same_row s1 s" by simp
      from f obtain v where v: "calls s = calls s1 @ v" "v = [] \<or> (\<exists>m. v = [Generate (Some m)])"
        by (rule validate_with_retry_calls')
      have "cycle_shape (a @ v @ [])"
        by (rule cycle_shapeI) (use a v in simp_all)
      with a v s0 have "\<exists>tr. calls st' = calls st @ tr \<and> cycle_shape tr"
        by (simp add: st')
      with same same1 s0 show ?thesis
        by (simp add: st' same_row_def)
    next
      case Go2: (Go cv s2)
      obtain c2 v2 where cv: "cv = (c2, v2)" by (cases cv)
      from Go2 have f2: "final_state (validate_with_retry py r sc c s1) = Some s2" by simp
      from validate_with_retry_calls [OF f2] have same2: "same_row s1 s2" by simp
      from f2 obtain v where v: "calls s2 = calls s1 @ v" "v = [] \<or> (\<exists>m. v = [Generate (Some m)])"
        by (rule validate_with_retry_calls')
      show ?thesis
      proof (cases "check_duplicate c2 s2")
        case (Crash e)
        with run Go Go2 cv show ?thesis by (simp add: run_cycle_def)
      next
        case (Skip s)
        with run Go Go2 cv have st': "st' = s" by (simp add: run_cycle_def)
        from Skip have "final_state (check_duplicate c2 s2) = Some s" by simp
        from check_duplicate_calls [OF this] have same: "same_row s2 s" and d: "calls s = calls s2"
          by simp_all
        have "cycle_shape (a @ v @ [])"
          by (rule cycle_shapeI) (use a v in simp_all)
        with a v d s0 have "\<exists>tr. calls st' = calls st @ tr \<and> cycle_shape tr"
          by (simp add: st')
        with same same1 same2 s0 show ?thesis
          by (simp add: st' same_row_def)
      next
        case Go3: (Go sig s3)
        then have "final_state (check_duplicate c2 s2) = Some s3" by simp
        from check_duplicate_calls [OF this] have same3: "same_row s2 s3" and d: "calls s3 = calls s2"
          by simp_all
        show ?thesis
        proof (cases "generate_code py sc c2 s3")
          case (Crash e)
          with run Go Go2 cv Go3 show ?thesis by (simp add: run_cycle_def)
        next
          case (Skip s)
          with run Go Go2 cv Go3 have st': "st' = s" by (simp add: run_cycle_def)
          from Skip have f: "final_state (generate_code py sc c2 s3) = Some s" by simp
          from generate_code_calls [OF f] have same: "same_row s3 s" by simp
          from f obtain k where k: "calls s = calls s3 @ k"
            "k = [GenerateCode None] \<or> (\<exists>m. k = [GenerateCode None, GenerateCode (Some m)])"
            by (rule generate_code_calls')
          have "cycle_shape (a @ v @ k)"
            by (rule cycle_shapeI) (use a v k in simp_all)
          with a v d k s0 have "\<exists>tr. calls st' = calls st @ tr \<and> cycle_shape tr"
            by (simp add: st')
          with same same1 same2 same3 s0 show ?thesis
            by (simp add: st' same_row_def)
        next
          case Go4: (Go ca s4)
          obtain code a4 where ca: "ca = (code, a4)" by (cases ca)
          from Go4 have f: "final_state (generate_code py sc c2 s3) = Some s4" by simp
          from generate_code_calls [OF f] have same: "same_row s3 s4" by simp
          from f obtain k where k: "calls s4 = calls s3 @ k"
            "k = [GenerateCode None] \<or> (\<exists>m. k = [GenerateCode None, GenerateCode (Some m)])"
            by (rule generate_code_calls')
          from run Go Go2 cv Go3 Go4 ca
          have st': "st' = record_success r sc c2 v2 sig code a4 s4" by (simp add: run_cycle_def)
          then have r: "calls st' = calls s4"
            "\<exists>x. per_row_successful st' = per_row_successful s4 @ [x]"
            "total_cycles_attempted st' = total_cycles_attempted s4"
            by (simp_all add: record_success_def Let_def)
          have "cycle_shape (a @ v @ k)"
            by (rule cycle_shapeI) (use a v k in simp_all)
          with a v d k s0 r have "\<exists>tr. calls st' = calls st @ tr \<and> cycle_shape tr"
            by simp
          with same same1 same2 same3 s0 r show ?thesis
            by (simp add: same_row_def)
        qed
      qed
    qed
  qed
qed


lemma good_cycle:
  assumes "\<forall>p \<in> set (previous_problems st). signature p \<noteq> ''fids=[F1]|unknown='' @ u"
  shows "run_cycle demo_python demo_row (good_script u) st =
     Inr (record_success demo_row (good_script u) (named_candidate u)
            \<lparr>valid = True, error = None, unknown_var = Some u\<rparr>
            (''fids=[F1]|unknown='' @ u) ''def solve(): return True''
            \<lparr>valid = True, error = None, result = Some (PyBool True)\<rparr>
            (log_call (GenerateCode None) (log_call (Generate None)
               (st\<lparr>total_cycles_attempted := total_cycles_attempted st + 1\<rparr>))))"
proof -
  have sig: "compute_problem_signature (named_candidate u) = ''fids=[F1]|unknown='' @ u"
    by (simp add: compute_problem_signature_def named_candidate_def dict_get_def lower_def
        lower_char_def str_opt_def)
  have nv: "nan_vars_of (variables (named_candidate u)) = [u]"
    by (simp add: nan_vars_of_def named_candidate_def dict_get_def lower_def lower_char_def)
  have cv: "check_variables f vr (variables (named_candidate u)) = Inr None" for f vr
    by (simp add: named_candidate_def check_variable_def dict_get_def lower_def lower_char_def)
  have v: "validate demo_python demo_row (named_candidate u) s =
      Inr \<lparr>valid = True, error = None, unknown_var = Some u\<rparr>"
    if "previous_problems s = previous_problems st" for s
    using that assms
    by (simp add: validate_def validate_problem_def demo_row_def formula_id_set_of_def nv cv sig)
       (simp add: named_candidate_def)
  have x: "execute_and_validate_in_repl (run_exec demo_python) ''def solve(): return True''
      (variables (named_candidate u)) = Inr \<lparr>valid = True, error = None, result = Some (PyBool True)\<rparr>"
    by (simp add: execute_and_validate_in_repl_def demo_python_def example_interpreter_def
        check_result_def nv)
  show ?thesis
    using assms
    by (simp add: run_cycle_def generate_def good_script_def Let_def validate_with_retry_def v
        log_call_def check_duplicate_def sig generate_code_def x)
qed


subsection \<open>The loop of one row\<close>

lemma generation_loop_bound:
  "generation_loop py r script i st = Inr (n, st') \<Longrightarrow>
     i \<le> n \<and> n \<le> max i max_iterations
     \<and> total_cycles_attempted st' = total_cycles_attempted st + 2 * (n - i)
     \<and> length (per_row_successful st')
         \<le> max (length (per_row_successful st)) (target_problems + 1)"
proof (induction py r script i st rule: generation_loop.induct)
  case (1 py r script i st)
  show ?case
  proof (cases "i < max_iterations \<and> length (per_row_successful st) < target_problems")
    case False
    with "1.prems" have "n = i" "st' = st"
      by (simp_all add: generation_loop.simps [of py r script i st])
    then show ?thesis
      by simp
  next
    case True
    with "1.prems" obtain st1 st2 where
      c1: "run_cycle py r (script i 0) st = Inr st1" and
      c2: "run_cycle py r (script i 1) st1 = Inr st2" and
      rest: "generation_loop py r script (i + 1) st2 = Inr (n, st')"
      by (auto simp add: generation_loop.simps [of py r script i st] split: sum.splits)
    note ih = "1.IH" [OF True c1 c2 rest]
    from run_cycle_effect [OF c1] run_cycle_effect [OF c2]
    have t: "total_cycles_attempted st2 = total_cycles_attempted st + 2"
      and l: "length (per_row_successful st2) \<le> length (per_row_successful st) + 2"
      by auto
    from True l have "length (per_row_successful st2) \<le> target_problems + 1"
      by simp
    with ih t True show ?thesis
      by auto
  qed
qed

lemma failing_cycle:
  "run_cycle py r failing_script st =
     Inr (count_parse_failure (log_call (Generate None)
            (st\<lparr>total_cycles_attempted := total_cycles_attempted st + 1\<rparr>)))"
  by (simp add: run_cycle_def generate_def failing_script_def Let_def)

lemma good_cycle_invariant:
  assumes inv: "demo_invariant m k st" and less: "m < n"
  shows "\<exists>st'. run_cycle demo_python demo_row (good_script (replicate n CHR ''q'')) st = Inr st'
     \<and> demo_invariant n (Suc k) st'"
proof -
  let ?u = "replicate n CHR ''q''"
  have new: "\<forall>p \<in> set (previous_problems st). signature p \<noteq> ''fids=[F1]|unknown='' @ ?u"
  proof
    fix p assume "p \<in> set (previous_problems st)"
    with inv obtain j where "j \<le> m" "signature p = ''fids=[F1]|unknown='' @ replicate j CHR ''q''"
      unfolding demo_invariant_def by blast
    with less have "length (signature p) \<noteq> length (''fids=[F1]|unknown='' @ ?u)"
      by simp
    then show "signature p \<noteq> ''fids=[F1]|unknown='' @ ?u"
      by auto
  qed
  note run = good_cycle [OF new]
  have "demo_invariant n (Suc k) (record_success demo_row (good_script ?u) (named_candidate ?u)
            \<lparr>valid = True, error = None, unknown_var = Some ?u\<rparr>
            (''fids=[F1]|unknown='' @ ?u) ''def solve(): return True''
            \<lparr>valid = True, error = None, result = Some (PyBool True)\<rparr>
            (log_call (GenerateCode None) (log_call (Generate None)
               (st\<lparr>total_cycles_attempted := total_cycles_attempted st + 1\<rparr>))))"
    unfolding demo_invariant_def
  proof (intro conjI ballI)
    show "length (per_row_successful (record_success demo_row (good_script ?u) (named_candidate ?u)
            \<lparr>valid = True, error = None, unknown_var = Some ?u\<rparr>
            (''fids=[F1]|unknown='' @ ?u) ''def solve(): return True''
            \<lparr>valid = True, error = None, result = Some (PyBool True)\<rparr>
            (log_call (GenerateCode None) (log_call (Generate None)
               (st\<lparr>total_cycles_attempted := total_cycles_attempted st + 1\<rparr>))))) = Suc k"
      using inv by (simp add: record_success_def Let_def log_call_def demo_invariant_def)
  next
    fix p
    assume "p \<in> set (previous_problems (record_success demo_row (good_script ?u) (named_candidate ?u)
            \<lparr>valid = True, error = None, unknown_var = Some ?u\<rparr>
            (''fids=[F1]|unknown='' @ ?u) ''def solve(): return True''
            \<lparr>valid = True, error = None, result = Some (PyBool True)\<rparr>
            (log_call (GenerateCode None) (log_call (Generate None)
               (st\<lparr>total_cycles_attempted := total_cycles_attempted st + 1\<rparr>)))))"
    then have "p \<in> set (take 10 (\<lparr>signature = ''fids=[F1]|unknown='' @ ?u,
         snippet = take 140 (word_problem (named_candidate ?u)),
         created_at = now (good_script ?u)\<rparr> # previous_problems st))"
      by (simp add: record_success_def Let_def log_call_def)
    then have "signature p = ''fids=[F1]|unknown='' @ ?u \<or> p \<in> set (previous_problems st)"
      by (auto dest!: in_set_takeD)
    then show "\<exists>j \<le> n. signature p = ''fids=[F1]|unknown='' @ replicate j CHR ''q''"
    proof
      assume "signature p = ''fids=[F1]|unknown='' @ ?u"
      then show ?thesis by blast
    next
      assume "p \<in> set (previous_problems st)"
      with inv obtain j where "j \<le> m" "signature p = ''fids=[F1]|unknown='' @ replicate j CHR ''q''"
        unfolding demo_invariant_def by blast
      with less show ?thesis
        by (intro exI [of _ j]) simp
    qed
  qed
  with run show ?thesis
    by blast
qed

lemma demo_iteration:
  assumes inv: "demo_invariant m k st" and k: "k < 10" and i: "0 < i" "i < 12" and m: "m \<le> 2 * i"
    and after: "i' = Suc i" "k' = k + 2" "m' = 2 * i + 2"
  shows "\<exists>st'. generation_loop demo_python demo_row demo_script i st
           = generation_loop demo_python demo_row demo_script i' st'
     \<and> demo_invariant m' k' st'"
proof -
  from m have "m < Suc (2 * i + 0)" by simp
  from good_cycle_invariant [OF inv this] obtain st1 where
    c1: "run_cycle demo_python demo_row (good_script (replicate (Suc (2 * i + 0)) CHR ''q'')) st
           = Inr st1" and inv1: "demo_invariant (Suc (2 * i + 0)) (Suc k) st1"
    by blast
  have "Suc (2 * i + 0) < Suc (2 * i + 1)" by simp
  from good_cycle_invariant [OF inv1 this] obtain st2 where
    c2: "run_cycle demo_python demo_row (good_script (replicate (Suc (2 * i + 1)) CHR ''q'')) st1
           = Inr st2" and inv2: "demo_invariant (Suc (2 * i + 1)) (Suc (Suc k)) st2"
    by blast
  from inv k i have cond: "i < max_iterations \<and> length (per_row_successful st) < target_problems"
    by (simp add: demo_invariant_def max_iterations_def target_problems_def)
  have "generation_loop demo_python demo_row demo_script i st
           = generation_loop demo_python demo_row demo_script (Suc i) st2"
    using cond c1 c2 i by (subst generation_loop.simps) (simp add: demo_script_def)
  with inv2 after show ?thesis
    by auto
qed

lemma demo_first_iteration:
  assumes inv: "demo_invariant 0 0 st"
  shows "\<exists>st'. generation_loop demo_python demo_row demo_script 0 st
           = generation_loop demo_python demo_row demo_script 1 st'
     \<and> demo_invariant 1 1 st'"
proof -
  have "(0::nat) < Suc (2 * 0 + 0)" by simp
  from good_cycle_invariant [OF inv this] obtain st1 where
    c1: "run_cycle demo_python demo_row (good_script (replicate (Suc (2 * 0 + 0)) CHR ''q'')) st
           = Inr st1" and inv1: "demo_invariant (Suc (2 * 0 + 0)) (Suc 0) st1"
    by blast
  let ?st2 = "count_parse_failure (log_call (Generate None)
            (st1\<lparr>total_cycles_attempted := total_cycles_attempted st1 + 1\<rparr>))"
  have inv2: "demo_invariant 1 1 ?st2"
    using inv1 by (simp add: demo_invariant_def count_parse_failure_def log_call_def)
  from inv have cond: "0 < max_iterations \<and> length (per_row_successful st) < target_problems"
    by (simp add: demo_invariant_def max_iterations_def target_problems_def)
  have "generation_loop demo_python demo_row demo_script 0 st
           = generation_loop demo_python demo_row demo_script 1 ?st2"
    using cond c1 by (subst generation_loop.simps) (simp add: demo_script_def failing_cycle)
  with inv2 show ?thesis
    by blast
qed

lemma demo_run:
  "\<exists>st'. process_row_loop demo_python demo_row demo_script initial_state = Inr (6, st')
     \<and> length (per_row_successful st') = 11"
proof -
  let ?loop = "generation_loop demo_python demo_row demo_script"
  have "demo_invariant 0 0 (initial_state\<lparr>per_row_successful := []\<rparr>)"
    by (simp add: demo_invariant_def initial_state_def)
  from demo_first_iteration [OF this] obtain s1 where
    1: "?loop 0 (initial_state\<lparr>per_row_successful := []\<rparr>) = ?loop 1 s1"
    and i1: "demo_invariant 1 1 s1"
    by blast
  have "\<exists>st'. ?loop 1 s1 = ?loop 2 st' \<and> demo_invariant 4 3 st'"
    by (rule demo_iteration [OF i1]) simp_all
  then obtain s2 where 2: "?loop 1 s1 = ?loop 2 s2" and i2: "demo_invariant 4 3 s2"
    by blast
  have "\<exists>st'. ?loop 2 s2 = ?loop 3 st' \<and> demo_invariant 6 5 st'"
    by (rule demo_iteration [OF i2]) simp_all
  then obtain s3 where 3: "?loop 2 s2 = ?loop 3 s3" and i3: "demo_invariant 6 5 s3"
    by blast
  have "\<exists>st'. ?loop 3 s3 = ?loop 4 st' \<and> demo_invariant 8 7 st'"
    by (rule demo_iteration [OF i3]) simp_all
  then obtain s4 where 4: "?loop 3 s3 = ?loop 4 s4" and i4: "demo_invariant 8 7 s4"
    by blast
  have "\<exists>st'. ?loop 4 s4 = ?loop 5 st' \<and> demo_invariant 10 9 st'"
    by (rule demo_iteration [OF i4]) simp_all
  then obtain s5 where 5: "?loop 4 s4 = ?loop 5 s5" and i5: "demo_invariant 10 9 s5"
    by blast
  have "\<exists>st'. ?loop 5 s5 = ?loop 6 st' \<and> demo_invariant 12 11 st'"
    by (rule demo_iteration [OF i5]) simp_all
  then obtain s6 where 6: "?loop 5 s5 = ?loop 6 s6" and i6: "demo_invariant 12 11 s6"
    by blast
  from i6 have len: "length (per_row_successful s6) = 11"
    by (simp add: demo_invariant_def)
  then have "?loop 6 s6 = Inr (6, s6)"
    by (subst generation_loop.simps) (simp add: target_problems_def)
  with 1 2 3 4 5 6 len show ?thesis
    by (simp add: process_row_loop_def)
qed


text \<open>
  Claim C9. The loop of one row ends after at most \<^verbatim>\<open>max_iterations\<close> = 12 iterations of two
  cycles each. The number of collected problems is tested only at the head of the loop,
  so an iteration that starts with 9 problems can end with 11: the loop never collects
  more than \<^verbatim>\<open>target_problems\<close> + 1 = 11 problems, and the example run collects exactly
  11 in 6 iterations.
\<close>

theorem row_loop_bounds:
  "(process_row_loop py r script st = Inr (n, st')
     \<longrightarrow> n \<le> max_iterations
       \<and> total_cycles_attempted st' = total_cycles_attempted st + 2 * n
       \<and> length (per_row_successful st') \<le> target_problems + 1)
   \<and> max_iterations = 12 \<and> target_problems + 1 = 11
   \<and> (\<exists>s. process_row_loop demo_python demo_row demo_script initial_state = Inr (6, s)
          \<and> length (per_row_successful s) = 11)"
proof (intro conjI impI)
  assume run: "process_row_loop py r script st = Inr (n, st')"
  then have "generation_loop py r script 0 (st\<lparr>per_row_successful := []\<rparr>) = Inr (n, st')"
    by (simp add: process_row_loop_def)
  note b = generation_loop_bound [OF this]
  from b show "n \<le> max_iterations"
    by simp
  from b show "total_cycles_attempted st' = total_cycles_attempted st + 2 * n"
    by simp
  from b show "length (per_row_successful st') \<le> target_problems + 1"
    by simp
next
  show "max_iterations = 12"
    by (simp add: max_iterations_def)
  show "target_problems + 1 = 11"
    by (simp add: target_problems_def)
  show "\<exists>s. process_row_loop demo_python demo_row demo_script initial_state = Inr (6, s)
          \<and> length (per_row_successful s) = 11"
    by (rule demo_run)
qed

theorem row_loop_bounds_witness:
  "\<exists>s. process_row_loop demo_python demo_row demo_script initial_state = Inr (6, s)
     \<and> 6 \<le> max_iterations
     \<and> total_cycles_attempted s = 12
     \<and> length (per_row_successful s) \<le> 11"
proof -
  from demo_run obtain s where
    run: "process_row_loop demo_python demo_row demo_script initial_state = Inr (6, s)"
    by blast
  from row_loop_bounds [of demo_python demo_row demo_script initial_state 6 s] run
  have "6 \<le> max_iterations
     \<and> total_cycles_attempted s = total_cycles_attempted initial_state + 2 * 6
     \<and> length (per_row_successful s) \<le> target_problems + 1"
    by blast
  then have "6 \<le> max_iterations \<and> total_cycles_attempted s = 12
     \<and> length (per_row_successful s) \<le> 11"
    by (simp add: initial_state_def target_problems_def)
  with run show ?thesis
    by blast
qed

subsection \<open>One retry per stage\<close>

lemma validate_log: "validate py r c (log_call x st) = validate py r c st"
  by (simp add: validate_def log_call_def)

lemma per_row_simps:
  "per_row_successful (log_call x st) = per_row_successful st"
  "per_row_successful (count_parse_failure st) = per_row_successful st"
  "per_row_successful (count_execution_failure st) = per_row_successful st"
  by (simp_all add: log_call_def count_parse_failure_def count_execution_failure_def)

text \<open>
  Claim C2. In every cycle each stage repeats its call to the model at most once. When
  the validator rejects the candidate, Call 2 is made once more with the validator's
  message in the prompt, and when the validator rejects the new candidate too the cycle
  ends without a record. When the executor rejects the code, Call 3 is made once more
  with the executor's message, and when the executor rejects the new code too the cycle
  ends without a record. The calls of a whole cycle are Call 2, at most one repetition
  for a parse failure, at most one for a validation failure, and at most Call 3 and one
  repetition of it; a cycle appends at most one record.
\<close>

theorem one_retry_per_stage:
  "(validate py r c st = Inr v \<and> \<not> valid v \<and> error v = Some msg
      \<and> final_state (validate_with_retry py r sc c st) = Some st'
     \<longrightarrow> calls st' = calls st @ [Generate (Some msg)]
       \<and> per_row_successful st' = per_row_successful st)
   \<and> (generate sc (st\<lparr>total_cycles_attempted := total_cycles_attempted st + 1\<rparr>) = Go c s1
      \<and> validate py r c s1 = Inr v \<and> \<not> valid v \<and> error v = Some msg
      \<and> call2b sc = LlmReturns (Some c2)
      \<and> validate py r c2 s1 = Inr v2 \<and> \<not> valid v2
     \<longrightarrow> (\<exists>s. run_cycle py r sc st = Inr s
            \<and> per_row_successful s = per_row_successful st
            \<and> calls s = calls s1 @ [Generate (Some msg)]))
   \<and> (call3 sc = LlmReturns code
      \<and> execute_and_validate_in_repl (run_exec py) code (variables c) = Inr a
      \<and> \<not> valid a \<and> error a = Some emsg
      \<and> final_state (generate_code py sc c st) = Some st'
     \<longrightarrow> calls st' = calls st @ [GenerateCode None, GenerateCode (Some emsg)]
       \<and> per_row_successful st' = per_row_successful st)
   \<and> (generate sc (st\<lparr>total_cycles_attempted := total_cycles_attempted st + 1\<rparr>) = Go c s1
      \<and> validate_with_retry py r sc c s1 = Go (c3, v3) s2
      \<and> check_duplicate c3 s2 = Go sig s3
      \<and> call3 sc = LlmReturns code
      \<and> execute_and_validate_in_repl (run_exec py) code (variables c3) = Inr a
      \<and> \<not> valid a \<and> error a = Some emsg
      \<and> call3a sc = LlmReturns code2
      \<and> execute_and_validate_in_repl (run_exec py) code2 (variables c3) = Inr a2
      \<and> \<not> valid a2
     \<longrightarrow> (\<exists>s. run_cycle py r sc st = Inr s
            \<and> per_row_successful s = per_row_successful st
            \<and> calls s = calls s3 @ [GenerateCode None, GenerateCode (Some emsg)]))
   \<and> (run_cycle py r sc st = Inr st'
     \<longrightarrow> (\<exists>tr. calls st' = calls st @ tr \<and> cycle_shape tr)
       \<and> (per_row_successful st' = per_row_successful st
            \<or> (\<exists>x. per_row_successful st' = per_row_successful st @ [x])))"
proof (intro conjI impI)
  assume h: "validate py r c st = Inr v \<and> \<not> valid v \<and> error v = Some msg
      \<and> final_state (validate_with_retry py r sc c st) = Some st'"
  then show "calls st' = calls st @ [Generate (Some msg)]"
    by (auto simp add: validate_with_retry_def Let_def calls_simps error_message_of_def
        split: reply.splits option.splits sum.splits if_splits)
  from h show "per_row_successful st' = per_row_successful st"
    by (auto simp add: validate_with_retry_def Let_def per_row_simps
        split: reply.splits option.splits sum.splits if_splits)
next
  assume h: "generate sc (st\<lparr>total_cycles_attempted := total_cycles_attempted st + 1\<rparr>) = Go c s1
      \<and> validate py r c s1 = Inr v \<and> \<not> valid v \<and> error v = Some msg
      \<and> call2b sc = LlmReturns (Some c2)
      \<and> validate py r c2 s1 = Inr v2 \<and> \<not> valid v2"
  let ?s = "count_parse_failure (log_call (Generate (Some msg)) s1)"
  from h have "validate_with_retry py r sc c s1 = Skip ?s"
    by (simp add: validate_with_retry_def Let_def validate_log error_message_of_def)
  with h have run: "run_cycle py r sc st = Inr ?s"
    by (simp add: run_cycle_def)
  from h have "final_state (generate sc (st\<lparr>total_cycles_attempted := total_cycles_attempted st + 1\<rparr>))
      = Some s1"
    by simp
  from generate_calls [OF this] have "per_row_successful s1 = per_row_successful st"
    by (simp add: same_row_def)
  with run show "\<exists>s. run_cycle py r sc st = Inr s
            \<and> per_row_successful s = per_row_successful st
            \<and> calls s = calls s1 @ [Generate (Some msg)]"
    by (simp add: per_row_simps calls_simps)
next
  assume h: "call3 sc = LlmReturns code
      \<and> execute_and_validate_in_repl (run_exec py) code (variables c) = Inr a
      \<and> \<not> valid a \<and> error a = Some emsg
      \<and> final_state (generate_code py sc c st) = Some st'"
  then show "calls st' = calls st @ [GenerateCode None, GenerateCode (Some emsg)]"
    by (auto simp add: generate_code_def Let_def calls_simps execution_error_of_def
        split: reply.splits sum.splits if_splits)
  from h show "per_row_successful st' = per_row_successful st"
    by (auto simp add: generate_code_def Let_def per_row_simps
        split: reply.splits sum.splits if_splits)
next
  assume h: "generate sc (st\<lparr>total_cycles_attempted := total_cycles_attempted st + 1\<rparr>) = Go c s1
      \<and> validate_with_retry py r sc c s1 = Go (c3, v3) s2
      \<and> check_duplicate c3 s2 = Go sig s3
      \<and> call3 sc = LlmReturns code
      \<and> execute_and_validate_in_repl (run_exec py) code (variables c3) = Inr a
      \<and> \<not> valid a \<and> error a = Some emsg
      \<and> call3a sc = LlmReturns code2
      \<and> execute_and_validate_in_repl (run_exec py) code2 (variables c3) = Inr a2
      \<and> \<not> valid a2"
  let ?s = "count_execution_failure
      (log_call (GenerateCode (Some emsg)) (log_call (GenerateCode None) s3))"
  from h have "generate_code py sc c3 s3 = Skip ?s"
    by (simp add: generate_code_def Let_def execution_error_of_def)
  with h have run: "run_cycle py r sc st = Inr ?s"
    by (simp add: run_cycle_def)
  from h have "final_state (generate sc (st\<lparr>total_cycles_attempted := total_cycles_attempted st + 1\<rparr>))
      = Some s1"
    and "final_state (validate_with_retry py r sc c s1) = Some s2"
    and "final_state (check_duplicate c3 s2) = Some s3"
    by simp_all
  from generate_calls [OF this(1)] validate_with_retry_calls [OF this(2)]
    check_duplicate_calls [OF this(3)]
  have "per_row_successful s3 = per_row_successful st"
    by (simp add: same_row_def)
  with run show "\<exists>s. run_cycle py r sc st = Inr s
            \<and> per_row_successful s = per_row_successful st
            \<and> calls s = calls s3 @ [GenerateCode None, GenerateCode (Some emsg)]"
    by (simp add: per_row_simps calls_simps)
next
  assume "run_cycle py r sc st = Inr st'"
  note e = run_cycle_effect [OF this]
  from e show "\<exists>tr. calls st' = calls st @ tr \<and> cycle_shape tr"
    by blast
  from e show "per_row_successful st' = per_row_successful st
            \<or> (\<exists>x. per_row_successful st' = per_row_successful st @ [x])"
    by blast
qed


lemma mismarked_rejected:
  "validate demo_python demo_row (scenario (PyInt 4) (PyStr ''unknown'')) s =
     Inr (invalid [Txt ''Must have exactly 1 unknown, found '', Str (PyInt 0)])"
  by (simp add: validate_def validate_problem_def demo_row_def scenario_ids_known
      scenario_nan_vars)

lemma marked_accepted:
  assumes "previous_problems s = []"
  shows "validate demo_python demo_row (scenario (PyInt 4) (PyStr ''NaN'')) s =
     Inr \<lparr>valid = True, error = None, unknown_var = Some ''acceleration''\<rparr>"
proof -
  have "check_variables (\<lambda>s. None) scenario_ranges (variables (scenario (PyInt 4) (PyStr ''NaN'')))
      = Inr None"
    by (simp add: scenario_def scenario_variables_def scenario_ranges_def check_variable_def
        declared_range_def dict_get_def lower_def lower_char_def float_of_int_def in_range_def)
  with assms show ?thesis
    by (simp add: validate_def validate_problem_def demo_row_def demo_python_def
        scenario_ids_known scenario_nan_vars)
qed

theorem one_retry_per_stage_witness:
  "(\<exists>s. run_cycle demo_python demo_row validation_retry_script initial_state = Inr s
      \<and> per_row_successful s = []
      \<and> calls s = [Generate None,
           Generate (Some [Txt ''Must have exactly 1 unknown, found '', Str (PyInt 0)])]
      \<and> (\<exists>tr. calls s = calls initial_state @ tr \<and> cycle_shape tr))
   \<and> (\<exists>s. final_state (validate_with_retry demo_python demo_row validation_retry_script
              (scenario (PyInt 4) (PyStr ''unknown'')) initial_state) = Some s
      \<and> calls s = [Generate (Some [Txt ''Must have exactly 1 unknown, found '', Str (PyInt 0)])])
   \<and> (\<exists>s. run_cycle demo_python demo_row execution_retry_script initial_state = Inr s
      \<and> per_row_successful s = []
      \<and> calls s = [Generate None, GenerateCode None,
           GenerateCode (Some [Txt ''Execution failed: '', Str (PyStr ''division by zero'')])])
   \<and> (\<exists>s. final_state (generate_code demo_python execution_retry_script
              (scenario (PyInt 4) (PyStr ''NaN'')) initial_state) = Some s
      \<and> calls s = [GenerateCode None,
           GenerateCode (Some [Txt ''Execution failed: '', Str (PyStr ''division by zero'')])])"
proof -
  let ?bad = "scenario (PyInt 4) (PyStr ''unknown'')"
  let ?good = "scenario (PyInt 4) (PyStr ''NaN'')"
  let ?msg = "[Txt ''Must have exactly 1 unknown, found '', Str (PyInt 0)]"
  let ?emsg = "[Txt ''Execution failed: '', Str (PyStr ''division by zero'')]"
  let ?v = "invalid ?msg"
  let ?ok = "\<lparr>valid = True, error = None, unknown_var = Some ''acceleration''\<rparr>"
  let ?a = "failed ?emsg"
  let ?a2 = "failed [Txt (CHR 0x27 # ''solve()'' @ [CHR 0x27] @ '' function not found'')]"
  let ?s0 = "initial_state\<lparr>total_cycles_attempted := total_cycles_attempted initial_state + 1\<rparr>"
  let ?s1 = "log_call (Generate None) ?s0"
  let ?sig = "compute_problem_signature ?good"
  have v: "\<not> valid ?v" "error ?v = Some ?msg"
    by (simp_all add: invalid_def)
  have a: "\<not> valid ?a" "error ?a = Some ?emsg" "\<not> valid ?a2"
    by (simp_all add: failed_def)
  have x1: "execute_and_validate_in_repl (run_exec demo_python) ''x = 1/0'' (variables ?good) = Inr ?a"
    and x2: "execute_and_validate_in_repl (run_exec demo_python) ''def helper(): return 1''
        (variables ?good) = Inr ?a2"
    by (simp_all add: execute_and_validate_in_repl_def demo_python_def example_interpreter_def)
  have empty: "previous_problems ?s1 = []" "previous_problems initial_state = []"
    by (simp_all add: log_call_def initial_state_def)
  \<comment> \<open>the cycle whose candidate is rejected twice\<close>
  have g1: "generate validation_retry_script ?s0 = Go ?bad ?s1"
    by (simp add: generate_def validation_retry_script_def)
  have b: "call2b validation_retry_script = LlmReturns (Some ?bad)"
    by (simp add: validation_retry_script_def)
  from one_retry_per_stage [where py = demo_python and r = demo_row
      and sc = validation_retry_script and st = initial_state and c = ?bad and ?s1.0 = ?s1
      and v = ?v and msg = ?msg and ?c2.0 = ?bad and ?v2.0 = ?v]
    g1 mismarked_rejected v b
  obtain s where s: "run_cycle demo_python demo_row validation_retry_script initial_state = Inr s"
    "per_row_successful s = per_row_successful initial_state"
    "calls s = calls ?s1 @ [Generate (Some ?msg)]"
    by blast
  from one_retry_per_stage [where py = demo_python and r = demo_row
      and sc = validation_retry_script and st = initial_state and st' = s] s(1)
  have shape: "\<exists>tr. calls s = calls initial_state @ tr \<and> cycle_shape tr"
    by blast
  have 1: "\<exists>s. run_cycle demo_python demo_row validation_retry_script initial_state = Inr s
      \<and> per_row_successful s = []
      \<and> calls s = [Generate None, Generate (Some ?msg)]
      \<and> (\<exists>tr. calls s = calls initial_state @ tr \<and> cycle_shape tr)"
    using s shape by (intro exI [of _ s]) (simp add: initial_state_def log_call_def)
  \<comment> \<open>its validation stage\<close>
  let ?t = "count_parse_failure (log_call (Generate (Some ?msg)) initial_state)"
  have f: "final_state (validate_with_retry demo_python demo_row validation_retry_script
              ?bad initial_state) = Some ?t"
    by (simp add: validate_with_retry_def mismarked_rejected invalid_def b error_message_of_def
        Let_def)
  from one_retry_per_stage [where py = demo_python and r = demo_row
      and sc = validation_retry_script and st = initial_state and c = ?bad
      and v = ?v and msg = ?msg and st' = ?t]
    mismarked_rejected v f
  have "calls ?t = calls initial_state @ [Generate (Some ?msg)]"
    by blast
  with f have 2: "\<exists>s. final_state (validate_with_retry demo_python demo_row validation_retry_script
              ?bad initial_state) = Some s \<and> calls s = [Generate (Some ?msg)]"
    by (intro exI [of _ ?t]) (simp add: initial_state_def)
  \<comment> \<open>the cycle whose code is rejected twice\<close>
  have g2: "generate execution_retry_script ?s0 = Go ?good ?s1"
    by (simp add: generate_def execution_retry_script_def)
  have w: "validate_with_retry demo_python demo_row execution_retry_script ?good ?s1
      = Go (?good, ?ok) ?s1"
    by (simp add: validate_with_retry_def marked_accepted log_call_def initial_state_def)
  have d: "check_duplicate ?good ?s1 = Go ?sig ?s1"
    by (simp add: check_duplicate_def log_call_def initial_state_def Let_def)
  have k: "call3 execution_retry_script = LlmReturns ''x = 1/0''"
    "call3a execution_retry_script = LlmReturns ''def helper(): return 1''"
    by (simp_all add: execution_retry_script_def)
  from one_retry_per_stage [where py = demo_python and r = demo_row
      and sc = execution_retry_script and st = initial_state and c = ?good and ?s1.0 = ?s1
      and ?c3.0 = ?good and ?v3.0 = ?ok and ?s2.0 = ?s1 and sig = ?sig and ?s3.0 = ?s1
      and code = "''x = 1/0''" and a = ?a and emsg = ?emsg
      and ?code2.0 = "''def helper(): return 1''" and ?a2.0 = ?a2]
    g2 w d k x1 x2 a
  obtain u where u: "run_cycle demo_python demo_row execution_retry_script initial_state = Inr u"
    "per_row_successful u = per_row_successful initial_state"
    "calls u = calls ?s1 @ [GenerateCode None, GenerateCode (Some ?emsg)]"
    by blast
  have 3: "\<exists>s. run_cycle demo_python demo_row execution_retry_script initial_state = Inr s
      \<and> per_row_successful s = []
      \<and> calls s = [Generate None, GenerateCode None, GenerateCode (Some ?emsg)]"
    using u by (intro exI [of _ u]) (simp add: initial_state_def log_call_def)
  \<comment> \<open>its execution stage\<close>
  let ?e = "count_execution_failure
      (log_call (GenerateCode (Some ?emsg)) (log_call (GenerateCode None) initial_state))"
  have fe: "final_state (generate_code demo_python execution_retry_script ?good initial_state)
      = Some ?e"
    by (simp add: generate_code_def k x1 x2 failed_def execution_error_of_def Let_def)
  from one_retry_per_stage [where py = demo_python
      and sc = execution_retry_script and st = initial_state and c = ?good
      and code = "''x = 1/0''" and a = ?a and emsg = ?emsg and st' = ?e]
    k x1 a fe
  have "calls ?e = calls initial_state @ [GenerateCode None, GenerateCode (Some ?emsg)]"
    by blast
  with fe have 4: "\<exists>s. final_state (generate_code demo_python execution_retry_script
              ?good initial_state) = Some s
      \<and> calls s = [GenerateCode None, GenerateCode (Some ?emsg)]"
    by (intro exI [of _ ?e]) (simp add: initial_state_def)
  from 1 2 3 4 show ?thesis
    by blast
qed


section \<open>The file of successful problems: properties\<close>

lemma signatures_append: "signatures (xs @ ys) = signatures xs @ signatures ys"
  by (simp add: signatures_def List.map_filter_def)

lemma signatures_fresh:
  "\<forall>r \<in> set added. rec_signature r \<noteq> []
   \<Longrightarrow> signatures (map Fresh added) = map (\<lambda>r. PyStr (rec_signature r)) added"
  by (induction added) (simp_all add: signatures_def List.map_filter_simps listed_signature_def)

lemma merge_appends:
  "\<exists>added. existing_records (merge per_row s) = existing_records s @ map Fresh added
     \<and> subseq added per_row
     \<and> distinct (map rec_signature added)
     \<and> (\<forall>r \<in> set added. rec_signature r \<noteq> [] \<and> PyStr (rec_signature r) \<notin> existing_signatures s)
     \<and> existing_signatures (merge per_row s)
         = existing_signatures s \<union> set (map (\<lambda>r. PyStr (rec_signature r)) added)"
proof (induction per_row arbitrary: s)
  case Nil
  show ?case
    by (rule exI [of _ "[]"]) simp
next
  case (Cons r per_row)
  show ?case
  proof (cases "rec_signature r \<noteq> [] \<and> PyStr (rec_signature r) \<notin> existing_signatures s")
    case True
    let ?s = "\<lparr>existing_records = existing_records s @ [Fresh r],
              existing_signatures = insert (PyStr (rec_signature r)) (existing_signatures s)\<rparr>"
    from True have m: "merge (r # per_row) s = merge per_row ?s"
      by (simp add: Let_def)
    from Cons.IH [of ?s] obtain added where
      a: "existing_records (merge per_row ?s) = existing_records ?s @ map Fresh added"
      "subseq added per_row" "distinct (map rec_signature added)"
      "\<forall>x \<in> set added. rec_signature x \<noteq> [] \<and> PyStr (rec_signature x) \<notin> existing_signatures ?s"
      "existing_signatures (merge per_row ?s)
         = existing_signatures ?s \<union> set (map (\<lambda>r. PyStr (rec_signature r)) added)"
      by blast
    have 1: "existing_records (merge per_row ?s) = existing_records s @ map Fresh (r # added)"
      using a(1) by simp
    have 2: "subseq (r # added) (r # per_row)"
      using a(2) by simp
    have 3: "distinct (map rec_signature (r # added))"
      using a(3,4) by auto
    have 4: "\<forall>x \<in> set (r # added).
        rec_signature x \<noteq> [] \<and> PyStr (rec_signature x) \<notin> existing_signatures s"
      using a(4) True by auto
    have 5: "existing_signatures (merge per_row ?s)
         = existing_signatures s \<union> set (map (\<lambda>r. PyStr (rec_signature r)) (r # added))"
      using a(5) by simp
    from 1 2 3 4 5 show ?thesis
      unfolding m by (intro exI [of _ "r # added"] conjI)
  next
    case False
    then have m: "merge (r # per_row) s = merge per_row s"
      by (auto simp add: Let_def)
    from Cons.IH [of s] obtain added where
      a: "existing_records (merge per_row s) = existing_records s @ map Fresh added"
      "subseq added per_row" "distinct (map rec_signature added)"
      "\<forall>x \<in> set added. rec_signature x \<noteq> [] \<and> PyStr (rec_signature x) \<notin> existing_signatures s"
      "existing_signatures (merge per_row s)
         = existing_signatures s \<union> set (map (\<lambda>r. PyStr (rec_signature r)) added)"
      by blast
    have 2: "subseq added (r # per_row)"
      using a(2) by (rule list_emb_Cons)
    from a(1) 2 a(3) a(4) a(5) show ?thesis
      unfolding m by (intro exI [of _ added] conjI)
  qed
qed

lemma merge_grows: "existing_signatures s \<subseteq> existing_signatures (merge per_row s)"
  using merge_appends [of per_row s] by auto

lemma merge_covers:
  "r \<in> set per_row \<Longrightarrow> rec_signature r \<noteq> []
   \<Longrightarrow> PyStr (rec_signature r) \<in> existing_signatures (merge per_row s)"
proof (induction per_row arbitrary: s)
  case Nil
  then show ?case by simp
next
  case (Cons x per_row)
  show ?case
  proof (cases "r = x")
    case True
    show ?thesis
    proof (cases "PyStr (rec_signature x) \<in> existing_signatures s")
      case True
      with \<open>r = x\<close> Cons.prems merge_grows [of s per_row] show ?thesis
        by (auto simp add: Let_def)
    next
      case False
      let ?s = "\<lparr>existing_records = existing_records s @ [Fresh x],
              existing_signatures = insert (PyStr (rec_signature x)) (existing_signatures s)\<rparr>"
      from False \<open>r = x\<close> Cons.prems have "merge (x # per_row) s = merge per_row ?s"
        by (simp add: Let_def)
      with merge_grows [of ?s per_row] \<open>r = x\<close> show ?thesis
        by auto
    qed
  next
    case False
    with Cons.prems have "r \<in> set per_row"
      by simp
    from Cons.IH [OF this Cons.prems(2)] show ?thesis
      by (simp add: Let_def)
  qed
qed

lemma merge_nothing_new:
  "\<forall>r \<in> set per_row. rec_signature r \<noteq> [] \<longrightarrow> PyStr (rec_signature r) \<in> existing_signatures s
   \<Longrightarrow> merge per_row s = s"
  by (induction per_row arbitrary: s) (auto simp add: Let_def)

lemma merge_twice: "merge per_row (merge per_row s) = merge per_row s"
  by (rule merge_nothing_new) (simp add: merge_covers)

text \<open>
  The store the program starts with has the set of the signatures of its records, and the
  signature of a generated problem is never the empty string.
\<close>

lemma open_store_signatures:
  "open_store f = Inr (s, w) \<Longrightarrow> existing_signatures s = set (signatures (existing_records s))"
  by (cases "load_existing_records f")
    (auto simp add: open_store_def signature_set_def split: if_splits)

lemma signature_not_empty: "compute_problem_signature c \<noteq> []"
  by (simp add: compute_problem_signature_def)

text \<open>
  Claim C5. Take a store in which the set of signatures is the set of the signatures of
  its records and in which these signatures are pairwise distinct. The merge of the
  records of a row appends a selection of them, in their order, none of which has a
  signature that was in the store; afterwards every signature of the row is in the
  store, the signatures of the store are still pairwise distinct and the set is still the
  set of the signatures of the records. Merging the same records a second time changes
  nothing: the store is the same and has the same number of records.
\<close>

theorem merge_idempotent:
  assumes "existing_signatures s = set (signatures (existing_records s))"
    and "distinct (signatures (existing_records s))"
    and "merge_and_write w1 per_row s = (s1, out1)"
    and "merge_and_write w2 per_row s1 = (s2, out2)"
  shows "(\<exists>added. existing_records s1 = existing_records s @ map Fresh added
            \<and> subseq added per_row
            \<and> (\<forall>r \<in> set added.
                  PyStr (rec_signature r) \<notin> set (signatures (existing_records s))))
         \<and> (\<forall>r \<in> set per_row. rec_signature r \<noteq> []
               \<longrightarrow> PyStr (rec_signature r) \<in> set (signatures (existing_records s1)))
         \<and> distinct (signatures (existing_records s1))
         \<and> existing_signatures s1 = set (signatures (existing_records s1))
         \<and> s2 = s1
         \<and> length (existing_records s2) = length (existing_records s1)"
proof -
  from assms(3) have s1: "s1 = merge per_row s"
    by (auto simp add: merge_and_write_def Let_def)
  from assms(4) have "s2 = merge per_row s1"
    by (auto simp add: merge_and_write_def Let_def)
  then have s2: "s2 = s1"
    unfolding s1 by (simp add: merge_twice)
  from merge_appends [of per_row s] obtain added where
    a: "existing_records s1 = existing_records s @ map Fresh added"
    "subseq added per_row" "distinct (map rec_signature added)"
    "\<forall>x \<in> set added. rec_signature x \<noteq> [] \<and> PyStr (rec_signature x) \<notin> existing_signatures s"
    "existing_signatures s1
       = existing_signatures s \<union> set (map (\<lambda>r. PyStr (rec_signature r)) added)"
    unfolding s1 by blast
  from a(4) have sf: "signatures (map Fresh added) = map (\<lambda>r. PyStr (rec_signature r)) added"
    by (intro signatures_fresh) simp
  have sg: "signatures (existing_records s1)
      = signatures (existing_records s) @ map (\<lambda>r. PyStr (rec_signature r)) added"
    by (simp add: a(1) signatures_append sf)
  have inv: "existing_signatures s1 = set (signatures (existing_records s1))"
    by (simp add: sg a(5) assms(1))
  have "distinct (map (\<lambda>r. PyStr (rec_signature r)) added)"
    using a(3) by (simp add: distinct_map inj_on_def)
  with assms(1,2) a(4) have d: "distinct (signatures (existing_records s1))"
    unfolding sg by auto
  have c: "\<forall>r \<in> set per_row. rec_signature r \<noteq> []
      \<longrightarrow> PyStr (rec_signature r) \<in> set (signatures (existing_records s1))"
    using merge_covers [of _ per_row s] inv s1 by auto
  have "\<exists>added. existing_records s1 = existing_records s @ map Fresh added
            \<and> subseq added per_row
            \<and> (\<forall>r \<in> set added.
                  PyStr (rec_signature r) \<notin> set (signatures (existing_records s)))"
    using a(1,2,4) assms(1) by (intro exI [of _ added]) simp
  with c d inv s2 show ?thesis
    by simp
qed

lemma example_signatures:
  "signatures [Loaded (saved_record ''a'')] = [PyStr ''fids=[F1]|unknown=a'']"
  "signatures [Loaded (saved_record ''a''), Fresh (example_record ''b'')]
     = [PyStr ''fids=[F1]|unknown=a'', PyStr ''fids=[F1]|unknown=b'']"
  by (simp_all add: signatures_def List.map_filter_simps listed_signature_def saved_record_def
      example_record_def dict_get_def)

theorem merge_idempotent_witness:
  "open_store (Json (PyList [saved_record ''a'']))
     = Inr (\<lparr>existing_records = [Loaded (saved_record ''a'')],
             existing_signatures = {PyStr ''fids=[F1]|unknown=a''}\<rparr>, None)
   \<and> merge_and_write True [example_record ''a'', example_record ''b'', example_record ''b'']
        \<lparr>existing_records = [Loaded (saved_record ''a'')],
         existing_signatures = {PyStr ''fids=[F1]|unknown=a''}\<rparr>
     = (\<lparr>existing_records = [Loaded (saved_record ''a''), Fresh (example_record ''b'')],
         existing_signatures = {PyStr ''fids=[F1]|unknown=b'', PyStr ''fids=[F1]|unknown=a''}\<rparr>,
        Some [Loaded (saved_record ''a''), Fresh (example_record ''b'')])
   \<and> fst (merge_and_write True [example_record ''a'', example_record ''b'', example_record ''b'']
        \<lparr>existing_records = [Loaded (saved_record ''a''), Fresh (example_record ''b'')],
         existing_signatures = {PyStr ''fids=[F1]|unknown=b'', PyStr ''fids=[F1]|unknown=a''}\<rparr>)
     = \<lparr>existing_records = [Loaded (saved_record ''a''), Fresh (example_record ''b'')],
        existing_signatures = {PyStr ''fids=[F1]|unknown=b'', PyStr ''fids=[F1]|unknown=a''}\<rparr>
   \<and> distinct (signatures [Loaded (saved_record ''a''), Fresh (example_record ''b'')])"
proof -
  let ?s = "\<lparr>existing_records = [Loaded (saved_record ''a'')],
             existing_signatures = {PyStr ''fids=[F1]|unknown=a''}\<rparr>"
  let ?row = "[example_record ''a'', example_record ''b'', example_record ''b'']"
  let ?s1 = "\<lparr>existing_records = [Loaded (saved_record ''a''), Fresh (example_record ''b'')],
         existing_signatures = {PyStr ''fids=[F1]|unknown=b'', PyStr ''fids=[F1]|unknown=a''}\<rparr>"
  have o: "open_store (Json (PyList [saved_record ''a''])) = Inr (?s, None)"
    by (simp add: open_store_def signature_set_def example_signatures)
  have h1: "existing_signatures ?s = set (signatures (existing_records ?s))"
    by (simp add: example_signatures)
  have h2: "distinct (signatures (existing_records ?s))"
    by (simp add: example_signatures)
  have m1: "merge_and_write True ?row ?s = (?s1, Some (existing_records ?s1))"
    by (simp add: merge_and_write_def Let_def example_record_def)
  have m2: "merge_and_write True ?row ?s1
      = (fst (merge_and_write True ?row ?s1), snd (merge_and_write True ?row ?s1))"
    by simp
  from merge_idempotent [OF h1 h2 m1 m2]
  have "fst (merge_and_write True ?row ?s1) = ?s1 \<and> distinct (signatures (existing_records ?s1))"
    by blast
  with o m1 show ?thesis
    by simp
qed





end
